theory Spec2Isabelle
  imports Complex_Main
begin

section \<open>Failures and tensor shapes\<close>

text \<open>
  The repository (\<^verbatim>\<open>src/models/model.py\<close>, and its older copy \<^verbatim>\<open>src/model.py\<close>)
  composes layers of a tensor framework into video encoders and classifiers.  The
  numeric contents of a floating-point tensor are not modelled, nor are devices,
  printing and the limits of memory; what the forward passes and constructors do to the
  \<^emph>\<open>shape\<close> of a tensor, which values they pass to which sub-module, and which of
  them raise, is.

  An exception is a value of type \<open>error\<close>; a computation that may raise returns
  \<open>error + 'a\<close>, with \<open>Inl\<close> for the exception.  An error records who raised it: an
  operation of the tensor framework (\<open>Framework\<close>), a built-in operation of the language
  such as indexing a list (\<open>Language\<close>), or a \<^verbatim>\<open>raise\<close> statement of the repository's
  own code (\<open>Repository\<close>).  The two source files contain no \<^verbatim>\<open>raise\<close>, so no
  definition below builds a \<open>Repository\<close> error; the classes they import from files that
  are not among the sources are parameters, and may return any error.
\<close>

datatype raised_by = Framework | Language | Repository

datatype exn = RuntimeError | ValueError | IndexError | AttributeError | StopIteration

datatype error = Error (origin: raised_by) (exn: exn)

type_synonym shape = "nat list"

definition and_then :: "error + 'a \<Rightarrow> ('a \<Rightarrow> error + 'b) \<Rightarrow> error + 'b" where
  "and_then r f = (case r of Inl e \<Rightarrow> Inl e | Inr v \<Rightarrow> f v)"

text \<open>\<^verbatim>\<open>x.size(i)\<close> and \<^verbatim>\<open>x.size()[i]\<close> for a non-negative constant \<open>i\<close>: an index
  outside the tensor's rank raises \<open>IndexError\<close>.  Indexing a tuple or a list of the
  language (\<^verbatim>\<open>input_shape[1]\<close>, \<^verbatim>\<open>layer_sizes[0]\<close>) does the same, raised by the language.\<close>

definition size_at :: "shape \<Rightarrow> nat \<Rightarrow> error + nat" where
  "size_at s i = (if i < length s then Inr (s ! i) else Inl (Error Framework IndexError))"

definition list_at :: "'a list \<Rightarrow> nat \<Rightarrow> error + 'a" where
  "list_at xs i = (if i < length xs then Inr (xs ! i) else Inl (Error Language IndexError))"

text \<open>\<^verbatim>\<open>x.size()[-1]\<close>: the last dimension; \<open>IndexError\<close> on a tensor of rank 0.\<close>

definition size_last :: "shape \<Rightarrow> error + nat" where
  "size_last s = (if s = [] then Inl (Error Framework IndexError) else Inr (last s))"

definition numel :: "shape \<Rightarrow> nat" where
  "numel s = prod_list s"

text \<open>
  \<^verbatim>\<open>x.view(d1, ..., dk, -1)\<close>: the framework infers the last dimension.  With \<open>known\<close>
  the product of the given dimensions, it accepts the view when \<open>known\<close> is positive and
  divides the number of elements, and raises \<open>RuntimeError\<close> otherwise (a tensor of no
  elements viewed with a given dimension 0 is refused as ambiguous).
\<close>

definition view_infer :: "shape \<Rightarrow> nat list \<Rightarrow> error + shape" where
  "view_infer s dims =
     (let known = prod_list dims in
      if 0 < known \<and> numel s mod known = 0 then Inr (dims @ [numel s div known])
      else Inl (Error Framework RuntimeError))"

subsection \<open>Framework layers, on shapes\<close>

text \<open>
  The output length of one axis of a convolution or a pooling window of size \<open>k\<close>,
  stride \<open>s\<close>, padding \<open>p\<close> and dilation \<open>d\<close> over an axis of length \<open>n\<close>:
  \<open>\<lfloor>(n + 2p - d(k - 1) - 1) / s\<rfloor> + 1\<close>, and \<open>RuntimeError\<close> when the padded axis is
  shorter than the window.
\<close>

definition window_out :: "nat \<Rightarrow> nat \<Rightarrow> nat \<Rightarrow> nat \<Rightarrow> nat \<Rightarrow> error + nat" where
  "window_out n k s p d =
     (if k = 0 \<or> s = 0 \<or> n + 2 * p < d * (k - 1) + 1 then Inl (Error Framework RuntimeError)
      else Inr ((n + 2 * p - (d * (k - 1) + 1)) div s + 1))"

record MaxPool3d =
  pool_kernel_size :: "nat \<times> nat \<times> nat"
  pool_stride :: "nat \<times> nat \<times> nat"
  pool_padding :: "nat \<times> nat \<times> nat"

text \<open>
  \<^verbatim>\<open>nn.MaxPool3d\<close> takes a batched input \<open>(N, C, T, H, W)\<close> or a single item
  \<open>(C, T, H, W)\<close>: channels are kept and each of the three axes is windowed, without
  dilation.  The framework refuses a padding of more than half the kernel and an input
  with an empty dimension other than the batch.
\<close>

definition pool_out :: "nat \<Rightarrow> nat \<Rightarrow> nat \<Rightarrow> nat \<Rightarrow> error + nat" where
  "pool_out n k s p =
     (if k div 2 < p then Inl (Error Framework RuntimeError) else window_out n k s p 1)"

definition MaxPool3d_window :: "MaxPool3d \<Rightarrow> nat \<Rightarrow> nat \<Rightarrow> nat \<Rightarrow> error + nat \<times> nat \<times> nat" where
  "MaxPool3d_window m t h w =
     (case (pool_kernel_size m, pool_stride m, pool_padding m) of
        ((kt, kh, kw), (st, sh, sw), (pt, ph, pw)) \<Rightarrow>
          if t = 0 \<or> h = 0 \<or> w = 0 then Inl (Error Framework RuntimeError)
          else
            and_then (pool_out t kt st pt) (\<lambda>t'.
            and_then (pool_out h kh sh ph) (\<lambda>h'.
            and_then (pool_out w kw sw pw) (\<lambda>w'.
            Inr (t', h', w')))))"

fun MaxPool3d_forward :: "MaxPool3d \<Rightarrow> shape \<Rightarrow> error + shape" where
  "MaxPool3d_forward m [n, c, t, h, w] =
     (if c = 0 then Inl (Error Framework RuntimeError)
      else and_then (MaxPool3d_window m t h w) (\<lambda>(t', h', w'). Inr [n, c, t', h', w']))"
| "MaxPool3d_forward m [c, t, h, w] =
     (if c = 0 then Inl (Error Framework RuntimeError)
      else and_then (MaxPool3d_window m t h w) (\<lambda>(t', h', w'). Inr [c, t', h', w']))"
| "MaxPool3d_forward m s = Inl (Error Framework RuntimeError)"

text \<open>
  \<^verbatim>\<open>nn.AdaptiveAvgPool3d(1)\<close> and \<^verbatim>\<open>F.adaptive_avg_pool3d(x, 1)\<close>: for the output size 1
  the framework takes the mean over the last three dimensions and keeps each of them with
  size 1, whatever the rank of the input and also when a dimension is empty.  A tensor of
  fewer than three dimensions has no third dimension from the end: \<open>IndexError\<close>.
\<close>

definition AdaptiveAvgPool3d_1 :: "shape \<Rightarrow> error + shape" where
  "AdaptiveAvgPool3d_1 x =
     (if length x < 3 then Inl (Error Framework IndexError)
      else Inr (take (length x - 3) x @ [1, 1, 1]))"

text \<open>
  \<^verbatim>\<open>nn.Dropout(p)\<close>: the constructor refuses a probability outside \<open>[0, 1]\<close> with
  \<open>ValueError\<close>.  The probability is a float; it is taken as a real number (a float that
  is not a number is not modelled).  \<^verbatim>\<open>torch.zeros(d1, ..., dk)\<close> refuses a negative
  dimension.
\<close>

definition Dropout_init :: "real \<Rightarrow> error + unit" where
  "Dropout_init p = (if p < 0 \<or> 1 < p then Inl (Error Framework ValueError) else Inr ())"


section \<open>Modules and their parameters\<close>

text \<open>
  A module is a tree: a 3-d convolution with its weight and optional bias, a 3-d batch
  normalisation with its weight and bias (absent when the layer is not affine), any
  other layer with its parameters, or a container of sub-modules.  The contents of a
  parameter tensor are floating point; a tensor is represented by how it was last
  written: by the default initialisation of its layer, by a sample of the Kaiming normal
  distribution, or filled with a constant.
\<close>

datatype tensor = Default_init | Kaiming_normal | Filled int

datatype module =
    Conv3d tensor "tensor option"
  | BatchNorm3d "(tensor \<times> tensor) option"
  | Other "tensor list"
  | Container "module list"

text \<open>\<^verbatim>\<open>m.modules()\<close>: the module itself and all its descendants.\<close>

fun modules :: "module \<Rightarrow> module list" where
  "modules (Container ms) = Container ms # concat (map modules ms)"
| "modules m = [m]"

text \<open>\<^verbatim>\<open>m.parameters()\<close>: the parameter tensors of the module and of all its descendants.
  \<^verbatim>\<open>next(m.parameters())\<close> is the first of them; when there is none, the built-in \<^verbatim>\<open>next\<close>
  raises \<open>StopIteration\<close>.\<close>

fun parameters :: "module \<Rightarrow> tensor list" where
  "parameters (Conv3d w b) = w # (case b of None \<Rightarrow> [] | Some b' \<Rightarrow> [b'])"
| "parameters (BatchNorm3d p) = (case p of None \<Rightarrow> [] | Some (w, b) \<Rightarrow> [w, b])"
| "parameters (Other ps) = ps"
| "parameters (Container ms) = concat (map parameters ms)"

definition first_parameter :: "module \<Rightarrow> error + tensor" where
  "first_parameter m =
     (case parameters m of [] \<Rightarrow> Inl (Error Language StopIteration) | p # ps \<Rightarrow> Inr p)"

text \<open>The class of a module, which \<^verbatim>\<open>isinstance\<close> tests.\<close>

datatype module_class = Conv3d_class | BatchNorm3d_class | Other_class | Container_class

fun class_of :: "module \<Rightarrow> module_class" where
  "class_of (Conv3d w b) = Conv3d_class"
| "class_of (BatchNorm3d p) = BatchNorm3d_class"
| "class_of (Other ps) = Other_class"
| "class_of (Container ms) = Container_class"

text \<open>The state \<^verbatim>\<open>__init_weight\<close> leaves a module in: a convolution with a Kaiming normal
  weight, a batch normalisation with weight 1 and bias 0.\<close>

fun weights_initialised :: "module \<Rightarrow> bool" where
  "weights_initialised (Conv3d w b) \<longleftrightarrow> w = Kaiming_normal"
| "weights_initialised (BatchNorm3d p) \<longleftrightarrow> p = Some (Filled 1, Filled 0)"
| "weights_initialised m \<longleftrightarrow> True"

section \<open>VideoSpatioEncoder\<close>

text \<open>
  The constructor arguments of \<^verbatim>\<open>Conv3dResBlock\<close> as \<^verbatim>\<open>VideoSpatioEncoder.__init__\<close>
  passes them (the slope \<^verbatim>\<open>alpha\<close> of the activation is a float and has no effect on
  shapes; it is left out).  The class is defined in \<^verbatim>\<open>src/models/layer.py\<close>, which is not
  among the sources: a block is represented by its arguments, and its constructor, which
  returns the module tree of the new block, and its forward pass are the parameters
  \<open>new_blk\<close> and \<open>blk\<close> of the definitions below.
\<close>

record Conv3dResBlock =
  blk_in_channels :: nat
  blk_out_channels :: nat
  blk_kernel_size :: nat
  blk_stride :: nat
  blk_dilation :: nat
  blk_padding :: nat
  blk_bias :: bool
  blk_downsample :: bool

record VideoSpatioEncoder =
  input_shape :: shape
  seq_len :: nat
  conv_block1 :: Conv3dResBlock
  pooling_block1 :: MaxPool3d
  conv_block2 :: Conv3dResBlock
  pooling_block2 :: MaxPool3d
  conv_block3 :: Conv3dResBlock
  pooling_block3 :: MaxPool3d
  conv_block4 :: Conv3dResBlock

definition res_block :: "nat \<Rightarrow> nat \<Rightarrow> Conv3dResBlock" where
  "res_block cin cout =
     \<lparr>blk_in_channels = cin, blk_out_channels = cout, blk_kernel_size = 3, blk_stride = 2,
      blk_dilation = 1, blk_padding = 1, blk_bias = False, blk_downsample = True\<rparr>"

definition pooling_block :: MaxPool3d where
  "pooling_block = \<lparr>pool_kernel_size = (1, 3, 3), pool_stride = (1, 1, 1), pool_padding = (0, 0, 0)\<rparr>"


definition default_input_shape :: shape where
  "default_input_shape = [3, 8, 112, 112]"

text \<open>The four blocks and three poolings of \<^verbatim>\<open>VideoSpatioEncoder.forward\<close>, before the
  final \<^verbatim>\<open>view\<close>.  The forward pass of the block class is the parameter \<open>blk\<close>.\<close>

definition VideoSpatioEncoder_blocks ::
  "(Conv3dResBlock \<Rightarrow> shape \<Rightarrow> error + shape) \<Rightarrow> VideoSpatioEncoder \<Rightarrow> shape \<Rightarrow> error + shape" where
  "VideoSpatioEncoder_blocks blk self x =
     and_then (blk (conv_block1 self) x) (\<lambda>x.
     and_then (MaxPool3d_forward (pooling_block1 self) x) (\<lambda>x.
     and_then (blk (conv_block2 self) x) (\<lambda>x.
     and_then (MaxPool3d_forward (pooling_block2 self) x) (\<lambda>x.
     and_then (blk (conv_block3 self) x) (\<lambda>x.
     and_then (MaxPool3d_forward (pooling_block3 self) x) (\<lambda>x.
     blk (conv_block4 self) x))))))"

text \<open>\<^verbatim>\<open>VideoSpatioEncoder.forward\<close>: the blocks, then
  \<^verbatim>\<open>x.view(x.size(0), self.seq_len, -1)\<close>.\<close>

definition VideoSpatioEncoder_forward ::
  "(Conv3dResBlock \<Rightarrow> shape \<Rightarrow> error + shape) \<Rightarrow> VideoSpatioEncoder \<Rightarrow> shape \<Rightarrow> error + shape" where
  "VideoSpatioEncoder_forward blk self x =
     and_then (VideoSpatioEncoder_blocks blk self x) (\<lambda>x.
     and_then (size_at x 0) (\<lambda>n.
     view_infer x [n, seq_len self]))"

section \<open>SlowFastEncoder\<close>

subsection \<open>Splitting a clip into the slow and the fast stream\<close>

text \<open>
  For \<^verbatim>\<open>split_slow_fast\<close> the contents of the tensor matter, so here a 5-dimensional
  tensor is a nested list with the axes \<open>(N, C, T, H, W)\<close>; the entries are of any type.
\<close>

type_synonym 'a tensor5 = "'a list list list list list"

text \<open>\<^verbatim>\<open>xs[::k]\<close> for a step \<open>k \<ge> 1\<close>: the entries at the indices \<open>0, k, 2k, ...\<close>.\<close>

fun every_nth :: "nat \<Rightarrow> 'a list \<Rightarrow> 'a list" where
  "every_nth k [] = []"
| "every_nth k (x # xs) = x # every_nth k (drop (k - 1) xs)"

text \<open>
  The step of a slice is an integer of the language, which is unbounded; the framework
  works with signed 64-bit integers.  A step above \<open>2\<^sup>6\<^sup>3 - 1\<close> reaches the framework
  as \<open>2\<^sup>6\<^sup>3 - 1\<close> (\<open>slice_step\<close>).  For an axis of \<open>n\<close> entries the framework computes the
  length of the slice as \<open>(n + step - 1) / step\<close> and the stride of the sliced axis as the
  old stride times the step, both in 64-bit arithmetic: a sum or product outside the
  range wraps around (\<open>wrap64\<close>), and the division truncates towards zero
  (\<open>div_trunc\<close>).  The slice is refused with \<open>RuntimeError\<close> when the length or the stride
  computed this way is negative (\<open>slice_refused\<close>); otherwise it has the computed length
  (\<open>slice_len\<close>).  As long as nothing wraps around, the length is that of
  \<open>every_nth step\<close>.
\<close>

definition wrap64 :: "int \<Rightarrow> int" where
  "wrap64 i = (i + 2 ^ 63) mod 2 ^ 64 - 2 ^ 63"

definition div_trunc :: "int \<Rightarrow> int \<Rightarrow> int" where
  "div_trunc a b = (if 0 \<le> a then a div b else - ((- a) div b))"

definition slice_step :: "int \<Rightarrow> int" where
  "slice_step step = min step (2 ^ 63 - 1)"

definition slice_len64 :: "nat \<Rightarrow> int \<Rightarrow> int" where
  "slice_len64 n step = div_trunc (wrap64 (int n + slice_step step - 1)) (slice_step step)"

definition slice_refused :: "nat \<Rightarrow> nat \<Rightarrow> int \<Rightarrow> bool" where
  "slice_refused n stride step \<longleftrightarrow>
     slice_len64 n step < 0 \<or> wrap64 (int stride * slice_step step) < 0"

definition slice_len :: "nat \<Rightarrow> int \<Rightarrow> nat" where
  "slice_len n step = nat (slice_len64 n step)"

text \<open>
  A tensor is taken to be stored contiguously, as a newly created tensor is: the stride
  of the time axis of a channel is the number of elements of a frame, a dimension of
  size 0 counting as 1.  (A nested list does not record the size of a frame of a
  channel without frames, nor the length of a row of a frame without rows; each is taken
  to be 1.)  What the framework makes of a length that has wrapped around when the tensor
  has no element at all is not modelled: the slice is refused there as for any other
  tensor.
\<close>

definition frame_elems :: "'a list list list \<Rightarrow> nat" where
  "frame_elems ch =
     (case ch of
        [] \<Rightarrow> 1
      | f # fs \<Rightarrow> max 1 (length f) * (case f of [] \<Rightarrow> 1 | r # rs \<Rightarrow> max 1 (length r)))"

text \<open>\<^verbatim>\<open>x[:, :, ::step, :, :]\<close>: the framework refuses a step that is not positive
  with \<open>ValueError\<close>; the time axis of every channel is sliced as described, and the
  full slices of the other four axes keep them as they are.\<close>

definition slice_time :: "int \<Rightarrow> 'a tensor5 \<Rightarrow> error + 'a tensor5" where
  "slice_time step x =
     (if step \<le> 0 then Inl (Error Framework ValueError)
      else if list_ex (\<lambda>ch. slice_refused (length ch) (frame_elems ch) step) (concat x)
      then Inl (Error Framework RuntimeError)
      else Inr (map (map (\<lambda>ch. take (slice_len (length ch) step)
                                  (every_nth (nat (slice_step step)) ch))) x))"

text \<open>
  The arguments \<^verbatim>\<open>SlowFastEncoder.__init__\<close> passes to \<^verbatim>\<open>resnet50_s\<close> and \<^verbatim>\<open>resnet50_f\<close>
  (the block class is left out).  Both functions come from \<^verbatim>\<open>src/models/slowfast.py\<close>,
  which is not among the sources: a network is represented by the arguments it was built
  from; the two functions, which return the module tree of the new network, are the
  parameters \<open>new_slownet\<close> and \<open>new_fastnet\<close> of the constructor, and the forward passes
  of the two networks are parameters of the encoder's forward pass.  The encoder keeps
  the module tree of its three sub-modules, the dropout layer (which has no parameter)
  last.
\<close>

record resnet_args =
  rn_layers :: "int list"
  rn_alpha :: int
  rn_in_channels :: nat
  rn_slow :: int
  rn_base_bn_splits :: "int option"

record SlowFastEncoder =
  sf_input_shape :: shape
  sf_seq_len :: nat
  sf_in_channels :: nat
  sf_alpha :: int
  sf_tau_fast :: int
  sf_slownet :: resnet_args
  sf_fastnet :: resnet_args
  sf_modules :: module

text \<open>
  \<^verbatim>\<open>SlowFastEncoder.__init__\<close>: \<^verbatim>\<open>input_shape[1]\<close> and \<^verbatim>\<open>input_shape[0]\<close> are read, the
  slow network is built, then the fast network, then the dropout layer.
\<close>

definition SlowFastEncoder_init ::
  "(resnet_args \<Rightarrow> error + module) \<Rightarrow> (resnet_args \<Rightarrow> error + module) \<Rightarrow>
   shape \<Rightarrow> int list \<Rightarrow> int \<Rightarrow> real \<Rightarrow> int \<Rightarrow> int option \<Rightarrow> error + SlowFastEncoder" where
  "SlowFastEncoder_init new_slownet new_fastnet ishape layers alpha p tau_fast base_bn_splits =
     and_then (list_at ishape 1) (\<lambda>sl.
     and_then (list_at ishape 0) (\<lambda>cin.
       let args_slow = \<lparr>rn_layers = layers, rn_alpha = alpha, rn_in_channels = cin,
                          rn_slow = 1, rn_base_bn_splits = base_bn_splits\<rparr>;
           args_fast = \<lparr>rn_layers = layers, rn_alpha = alpha, rn_in_channels = cin,
                          rn_slow = 0, rn_base_bn_splits = base_bn_splits\<rparr>
       in
       and_then (new_slownet args_slow) (\<lambda>m_slow.
       and_then (new_fastnet args_fast) (\<lambda>m_fast.
       and_then (Dropout_init p) (\<lambda>_.
         Inr \<lparr>sf_input_shape = ishape, sf_seq_len = sl, sf_in_channels = cin,
              sf_alpha = alpha, sf_tau_fast = tau_fast,
              sf_slownet = args_slow, sf_fastnet = args_fast,
              sf_modules = Container [m_slow, m_fast, Other []]\<rparr>)))))"

definition split_slow_fast :: "SlowFastEncoder \<Rightarrow> 'a tensor5 \<Rightarrow> error + ('a tensor5 \<times> 'a tensor5)" where
  "split_slow_fast self x =
     (let tau_fast = sf_tau_fast self;
          tau_slow = tau_fast * sf_alpha self in
      and_then (slice_time tau_slow x) (\<lambda>x_slow.
      and_then (slice_time tau_fast x) (\<lambda>x_fast.
      Inr (x_slow, x_fast))))"

text \<open>
  What "subsampled with stride \<open>k\<close>" means, said without the code: \<open>ys\<close> has one entry
  for every \<open>k\<close>-th index of \<open>xs\<close>, starting with the first, and its \<open>j\<close>-th entry is
  the entry \<open>j * k\<close> of \<open>xs\<close>; and a tensor is subsampled along the time axis when every
  channel of every batch item is.
\<close>

definition subsampled :: "nat \<Rightarrow> 'a list \<Rightarrow> 'a list \<Rightarrow> bool" where
  "subsampled k xs ys \<longleftrightarrow>
     length ys = (length xs + k - 1) div k \<and> (\<forall>j < length ys. ys ! j = xs ! (j * k))"

definition time_subsampled :: "nat \<Rightarrow> 'a tensor5 \<Rightarrow> 'a tensor5 \<Rightarrow> bool" where
  "time_subsampled k x y \<longleftrightarrow>
     length y = length x \<and>
     (\<forall>n < length x. length (y ! n) = length (x ! n) \<and>
        (\<forall>c < length (x ! n). subsampled k (x ! n ! c) (y ! n ! c)))"

text \<open>
  \<open>step_fits step x\<close>: slicing the time axis of \<open>x\<close> with \<open>step\<close> stays within the
  64-bit range, for the length and for the stride, in every channel.
\<close>

definition step_fits :: "int \<Rightarrow> 'a tensor5 \<Rightarrow> bool" where
  "step_fits step x \<longleftrightarrow>
     (\<forall>item \<in> set x. \<forall>ch \<in> set item.
        int (length ch) + step < 2 ^ 63 \<and> int (frame_elems ch) * step < 2 ^ 63)"

subsection \<open>The forward pass\<close>

text \<open>
  The forward pass calls its sub-modules one after the other.  To speak about that
  order, a computation returns, next to its result, the calls it has made: \<open>call c r\<close>
  is the call \<open>c\<close> with the result \<open>r\<close>, and \<open>then_call\<close> runs the rest only when the
  first part has not raised.
\<close>

datatype ('t, 'l, 'f) call =
    Call_fastnet 't
  | Call_slownet 't 'l
  | Call_cat 'f 'f
  | Call_dropout 'f

type_synonym ('c, 'a) traced = "'c list \<times> (error + 'a)"

definition call :: "'c \<Rightarrow> error + 'a \<Rightarrow> ('c, 'a) traced" where
  "call c r = ([c], r)"

definition untraced :: "error + 'a \<Rightarrow> ('c, 'a) traced" where
  "untraced r = ([], r)"

definition then_call :: "('c, 'a) traced \<Rightarrow> ('a \<Rightarrow> ('c, 'b) traced) \<Rightarrow> ('c, 'b) traced" where
  "then_call m f =
     (case snd m of
        Inl e \<Rightarrow> (fst m, Inl e)
      | Inr v \<Rightarrow> (fst m @ fst (f v), snd (f v)))"

text \<open>
  \<^verbatim>\<open>SlowFastEncoder.forward\<close>.  It is written once for tensors of any representation:
  \<open>split\<close> is \<^verbatim>\<open>self.split_slow_fast\<close>, \<open>cat\<close> is \<^verbatim>\<open>torch.cat([x_slow, x_fast], dim = 1)\<close>,
  and \<open>fastnet\<close>, \<open>slownet\<close>, \<open>dropout\<close> are the forward passes of the three sub-modules.
\<close>

definition SlowFastEncoder_forward ::
  "(SlowFastEncoder \<Rightarrow> 't \<Rightarrow> error + 't \<times> 't) \<Rightarrow>
   (resnet_args \<Rightarrow> 't \<Rightarrow> error + 'f \<times> 'l) \<Rightarrow>
   (resnet_args \<Rightarrow> 't \<times> 'l \<Rightarrow> error + 'f) \<Rightarrow>
   ('f \<Rightarrow> 'f \<Rightarrow> error + 'f) \<Rightarrow> ('f \<Rightarrow> error + 'f) \<Rightarrow>
   SlowFastEncoder \<Rightarrow> 't \<Rightarrow> (('t, 'l, 'f) call, 'f) traced" where
  "SlowFastEncoder_forward split fastnet slownet cat dropout self x =
     then_call (untraced (split self x)) (\<lambda>(x_slow, x_fast).
     then_call (call (Call_fastnet x_fast) (fastnet (sf_fastnet self) x_fast)) (\<lambda>(x_fast, laterals).
     then_call (call (Call_slownet x_slow laterals) (slownet (sf_slownet self) (x_slow, laterals))) (\<lambda>x_slow.
     then_call (call (Call_cat x_slow x_fast) (cat x_slow x_fast)) (\<lambda>x.
     call (Call_dropout x) (dropout x)))))"

text \<open>Concatenation along dimension 1 of two tensors given as lists of batch items, each
  item a list along dimension 1: the batch sizes must agree.\<close>

definition cat_dim1 :: "'b list list \<Rightarrow> 'b list list \<Rightarrow> error + 'b list list" where
  "cat_dim1 a b =
     (if length a = length b then Inr (map2 (@) a b) else Inl (Error Framework RuntimeError))"

subsection \<open>The same operations on shapes\<close>

text \<open>\<^verbatim>\<open>x[:, :, ::step, :, :]\<close> on a shape: five indices need a tensor of rank five at
  least; the time axis is sliced as above, its stride in a contiguous tensor being the
  product of the dimensions after it, a dimension of size 0 counting as 1.\<close>

definition slice_time_shape :: "int \<Rightarrow> shape \<Rightarrow> error + shape" where
  "slice_time_shape step s =
     (if length s < 5 then Inl (Error Framework IndexError)
      else if step \<le> 0 then Inl (Error Framework ValueError)
      else if slice_refused (s ! 2) (prod_list (map (max 1) (drop 3 s))) step
      then Inl (Error Framework RuntimeError)
      else Inr (s[2 := slice_len (s ! 2) step]))"

definition split_slow_fast_shape :: "SlowFastEncoder \<Rightarrow> shape \<Rightarrow> error + (shape \<times> shape)" where
  "split_slow_fast_shape self x =
     (let tau_fast = sf_tau_fast self;
          tau_slow = tau_fast * sf_alpha self in
      and_then (slice_time_shape tau_slow x) (\<lambda>x_slow.
      and_then (slice_time_shape tau_fast x) (\<lambda>x_fast.
      Inr (x_slow, x_fast))))"

text \<open>
  \<^verbatim>\<open>torch.cat([a, b], dim = 1)\<close> on shapes.  A tensor of rank 0 is refused.  A
  1-dimensional tensor without elements, of shape \<open>(0)\<close>, is skipped: two of them give
  \<open>(0)\<close>, one of them gives the other tensor.  The first tensor that is not skipped must
  have a dimension 1 (\<open>IndexError\<close> otherwise), and two tensors that are not skipped
  must have the same rank and agree in all dimensions but the second.
\<close>

definition cat_shape :: "shape \<Rightarrow> shape \<Rightarrow> error + shape" where
  "cat_shape a b =
     (if a = [] \<or> b = [] then Inl (Error Framework RuntimeError)
      else if a = [0] \<and> b = [0] then Inr [0]
      else if a = [0] then (if length b < 2 then Inl (Error Framework IndexError) else Inr b)
      else if length a < 2 then Inl (Error Framework IndexError)
      else if b = [0] then Inr a
      else if length a = length b \<and> a[1 := 0] = b[1 := 0] then Inr (a[1 := a ! 1 + b ! 1])
      else Inl (Error Framework RuntimeError))"

text \<open>Dropout keeps the shape of its input and never raises.\<close>

definition Dropout_forward :: "shape \<Rightarrow> error + shape" where
  "Dropout_forward x = Inr x"

definition SlowFastEncoder_forward_shape ::
  "(resnet_args \<Rightarrow> shape \<Rightarrow> error + shape \<times> shape list) \<Rightarrow>
   (resnet_args \<Rightarrow> shape \<times> shape list \<Rightarrow> error + shape) \<Rightarrow>
   SlowFastEncoder \<Rightarrow> shape \<Rightarrow> error + shape" where
  "SlowFastEncoder_forward_shape fastnet slownet self x =
     snd (SlowFastEncoder_forward split_slow_fast_shape fastnet slownet cat_shape Dropout_forward self x)"

text \<open>
  \<^verbatim>\<open>SlowFastEncoder.get_output_size\<close>: the forward pass on a probe of eight clips.  The
  probe is moved to the device of the first parameter of the model,
  \<^verbatim>\<open>next(self.parameters()).device\<close>, which raises \<open>StopIteration\<close> when the model has no
  parameter; the devices themselves are not modelled.
\<close>

definition SlowFastEncoder_get_output_size ::
  "(resnet_args \<Rightarrow> shape \<Rightarrow> error + shape \<times> shape list) \<Rightarrow>
   (resnet_args \<Rightarrow> shape \<times> shape list \<Rightarrow> error + shape) \<Rightarrow>
   SlowFastEncoder \<Rightarrow> error + shape" where
  "SlowFastEncoder_get_output_size fastnet slownet self =
     and_then (first_parameter (sf_modules self)) (\<lambda>device_of.
     SlowFastEncoder_forward_shape fastnet slownet self (8 # sf_input_shape self))"

section \<open>Classifier heads\<close>

text \<open>
  The heads are \<^verbatim>\<open>nn.Sequential\<close> containers of framework layers.  \<open>Linear i j\<close> maps a
  tensor whose last dimension is \<open>i\<close> to one whose last dimension is \<open>j\<close>.
  \<open>BatchNorm1d c\<close> takes \<open>(N, c)\<close> or \<open>(N, c, L)\<close>; in training mode it refuses an input
  with a single value per channel.  The activations keep the shape.
\<close>

datatype layer = Linear nat nat | BatchNorm1d nat | LeakyReLU | ReLU

fun layer_forward :: "bool \<Rightarrow> layer \<Rightarrow> shape \<Rightarrow> error + shape" where
  "layer_forward training (Linear n_in n_out) x =
     (if x \<noteq> [] \<and> last x = n_in then Inr (butlast x @ [n_out])
      else Inl (Error Framework RuntimeError))"
| "layer_forward training (BatchNorm1d c) x =
     (if length x \<noteq> 2 \<and> length x \<noteq> 3 then Inl (Error Framework ValueError)
      else if training \<and> hd x * prod_list (drop 2 x) = 1 then Inl (Error Framework ValueError)
      else if x ! 1 \<noteq> c then Inl (Error Framework RuntimeError)
      else Inr x)"
| "layer_forward training LeakyReLU x = Inr x"
| "layer_forward training ReLU x = Inr x"

fun Sequential_forward :: "bool \<Rightarrow> layer list \<Rightarrow> shape \<Rightarrow> error + shape" where
  "Sequential_forward training [] x = Inr x"
| "Sequential_forward training (l # ls) x =
     and_then (layer_forward training l x) (Sequential_forward training ls)"

section \<open>R2Plus1DNet and R2Plus1DClassifier\<close>

text \<open>
  The constructor arguments of \<^verbatim>\<open>SpatioTemporalConv\<close> and \<^verbatim>\<open>SpatioTemporalResLayer\<close> as
  \<^verbatim>\<open>R2Plus1DNet.__init__\<close> passes them (without the float \<^verbatim>\<open>alpha\<close>).  Both classes are
  defined in \<^verbatim>\<open>src/models/layer.py\<close>, which is not among the sources: a layer is
  represented by its arguments; the constructors, which return the module tree of the new
  layer, and the forward passes are parameters \<open>new_stc\<close>, \<open>new_srl\<close>, \<open>stc\<close>, \<open>srl\<close> of the
  definitions below.
\<close>

record SpatioTemporalConv =
  stc_in_channels :: nat
  stc_out_channels :: nat
  stc_kernel_size :: "nat \<times> nat \<times> nat"
  stc_stride :: "nat \<times> nat \<times> nat"
  stc_padding :: "nat \<times> nat \<times> nat"
  stc_dilation :: nat
  stc_is_first :: bool

record SpatioTemporalResLayer =
  srl_in_channels :: nat
  srl_out_channels :: nat
  srl_kernel_size :: nat
  srl_dilation :: nat
  srl_layer_size :: int
  srl_downsample :: "bool option"

record R2Plus1DNet =
  conv1 :: SpatioTemporalConv
  conv2 :: SpatioTemporalResLayer
  conv3 :: SpatioTemporalResLayer
  conv4 :: SpatioTemporalResLayer
  conv5 :: SpatioTemporalResLayer

definition res_layer :: "nat \<Rightarrow> nat \<Rightarrow> int \<Rightarrow> bool option \<Rightarrow> SpatioTemporalResLayer" where
  "res_layer cin cout n ds =
     \<lparr>srl_in_channels = cin, srl_out_channels = cout, srl_kernel_size = 3, srl_dilation = 1,
      srl_layer_size = n, srl_downsample = ds\<rparr>"

definition first_conv :: SpatioTemporalConv where
  "first_conv =
     \<lparr>stc_in_channels = 3, stc_out_channels = 64, stc_kernel_size = (1, 7, 7),
      stc_stride = (1, 2, 2), stc_padding = (0, 3, 3), stc_dilation = 1, stc_is_first = True\<rparr>"

text \<open>
  \<^verbatim>\<open>R2Plus1DNet.__init__\<close>: the five layers are built in order, and \<^verbatim>\<open>layer_sizes[i]\<close> is
  read just before the layer that uses it; a list of fewer than four entries raises
  \<open>IndexError\<close>.  The result is the network and the module tree of its sub-modules, the
  pooling layer last.
\<close>

definition R2Plus1DNet_init ::
  "(SpatioTemporalConv \<Rightarrow> error + module) \<Rightarrow> (SpatioTemporalResLayer \<Rightarrow> error + module) \<Rightarrow>
   int list \<Rightarrow> error + (R2Plus1DNet \<times> module)" where
  "R2Plus1DNet_init new_stc new_srl layer_sizes =
     and_then (new_stc first_conv) (\<lambda>m1.
     and_then (list_at layer_sizes 0) (\<lambda>n0.
     and_then (new_srl (res_layer 64 64 n0 None)) (\<lambda>m2.
     and_then (list_at layer_sizes 1) (\<lambda>n1.
     and_then (new_srl (res_layer 64 128 n1 (Some True))) (\<lambda>m3.
     and_then (list_at layer_sizes 2) (\<lambda>n2.
     and_then (new_srl (res_layer 128 256 n2 (Some True))) (\<lambda>m4.
     and_then (list_at layer_sizes 3) (\<lambda>n3.
     and_then (new_srl (res_layer 256 512 n3 (Some True))) (\<lambda>m5.
       Inr (\<lparr>conv1 = first_conv,
             conv2 = res_layer 64 64 n0 None,
             conv3 = res_layer 64 128 n1 (Some True),
             conv4 = res_layer 128 256 n2 (Some True),
             conv5 = res_layer 256 512 n3 (Some True)\<rparr>,
            Container [m1, m2, m3, m4, m5, Other []]))))))))))"

text \<open>\<^verbatim>\<open>R2Plus1DNet.forward\<close>: the batch size is read first; after the five layers and the
  pooling, \<^verbatim>\<open>x.view(batch_size, -1)\<close>.\<close>

definition R2Plus1DNet_forward ::
  "(SpatioTemporalConv \<Rightarrow> shape \<Rightarrow> error + shape) \<Rightarrow>
   (SpatioTemporalResLayer \<Rightarrow> shape \<Rightarrow> error + shape) \<Rightarrow>
   R2Plus1DNet \<Rightarrow> shape \<Rightarrow> error + shape" where
  "R2Plus1DNet_forward stc srl self x =
     and_then (size_at x 0) (\<lambda>batch_size.
     and_then (stc (conv1 self) x) (\<lambda>x.
     and_then (srl (conv2 self) x) (\<lambda>x.
     and_then (srl (conv3 self) x) (\<lambda>x.
     and_then (srl (conv4 self) x) (\<lambda>x.
     and_then (srl (conv5 self) x) (\<lambda>x.
     and_then (AdaptiveAvgPool3d_1 x) (\<lambda>x.
     view_infer x [batch_size])))))))"

record R2Plus1DClassifier =
  rc_input_size :: shape
  rc_res2plus1d :: R2Plus1DNet
  rc_linear :: "layer list"
  rc_modules :: module

text \<open>\<^verbatim>\<open>get_res2plus1d_output_size\<close>: the encoder's output size on a probe of one clip of
  zeros.\<close>

definition get_res2plus1d_output_size ::
  "(SpatioTemporalConv \<Rightarrow> shape \<Rightarrow> error + shape) \<Rightarrow>
   (SpatioTemporalResLayer \<Rightarrow> shape \<Rightarrow> error + shape) \<Rightarrow>
   shape \<Rightarrow> R2Plus1DNet \<Rightarrow> error + shape" where
  "get_res2plus1d_output_size stc srl input_size net =
     R2Plus1DNet_forward stc srl net (1 # input_size)"

text \<open>
  \<^verbatim>\<open>__init_weight\<close>: every module of the tree is visited; a \<^verbatim>\<open>Conv3d\<close> gets a Kaiming
  normal weight, a \<^verbatim>\<open>BatchNorm3d\<close> gets its weight filled with 1 and its bias with 0.
  For a batch normalisation that is not affine, \<^verbatim>\<open>m.weight\<close> is \<^verbatim>\<open>None\<close> and
  \<^verbatim>\<open>m.weight.data\<close> raises \<open>AttributeError\<close>.
\<close>

fun init_weight :: "module \<Rightarrow> error + module"
  and init_weights :: "module list \<Rightarrow> error + module list" where
  "init_weight (Conv3d w b) = Inr (Conv3d Kaiming_normal b)"
| "init_weight (BatchNorm3d p) =
     (case p of
        None \<Rightarrow> Inl (Error Language AttributeError)
      | Some (w, b) \<Rightarrow> Inr (BatchNorm3d (Some (Filled 1, Filled 0))))"
| "init_weight (Other ps) = Inr (Other ps)"
| "init_weight (Container ms) = and_then (init_weights ms) (\<lambda>ms'. Inr (Container ms'))"
| "init_weights [] = Inr []"
| "init_weights (m # ms) =
     and_then (init_weight m) (\<lambda>m'.
     and_then (init_weights ms) (\<lambda>ms'. Inr (m' # ms')))"

text \<open>\<^verbatim>\<open>__load_pretrained_weights\<close> prints the name and the size of every entry of the
  state dictionary and changes nothing; printing is not modelled.\<close>

definition load_pretrained_weights :: "R2Plus1DClassifier \<Rightarrow> R2Plus1DClassifier" where
  "load_pretrained_weights self = self"

text \<open>
  \<^verbatim>\<open>R2Plus1DClassifier.__init__\<close>: the encoder is built and probed, the head is built with
  the probe's second dimension as its input dimension, the weights are initialised, and
  with \<^verbatim>\<open>pretrained\<close> the state dictionary is printed.  The head's layers carry a weight
  and a bias each, the activation none.
\<close>

definition R2Plus1DClassifier_init ::
  "(SpatioTemporalConv \<Rightarrow> error + module) \<Rightarrow> (SpatioTemporalResLayer \<Rightarrow> error + module) \<Rightarrow>
   (SpatioTemporalConv \<Rightarrow> shape \<Rightarrow> error + shape) \<Rightarrow>
   (SpatioTemporalResLayer \<Rightarrow> shape \<Rightarrow> error + shape) \<Rightarrow>
   shape \<Rightarrow> nat \<Rightarrow> int list \<Rightarrow> bool \<Rightarrow> error + R2Plus1DClassifier" where
  "R2Plus1DClassifier_init new_stc new_srl stc srl input_size num_classes layer_sizes pretrained =
     and_then (R2Plus1DNet_init new_stc new_srl layer_sizes) (\<lambda>(net, net_modules).
     and_then (get_res2plus1d_output_size stc srl input_size net) (\<lambda>sz.
     and_then (size_at sz 1) (\<lambda>linear_dims.
     and_then (init_weight
        (Container [net_modules,
           Container [Other [Default_init, Default_init], Other [Default_init, Default_init],
                      Other [], Other [Default_init, Default_init]]])) (\<lambda>ms.
       let self = \<lparr>rc_input_size = input_size, rc_res2plus1d = net,
                     rc_linear = [Linear linear_dims 128, BatchNorm1d 128, LeakyReLU,
                                  Linear 128 num_classes],
                     rc_modules = ms\<rparr>
       in Inr (if pretrained then load_pretrained_weights self else self)))))"

text \<open>\<^verbatim>\<open>R2Plus1DClassifier.forward\<close>: the encoder, then the head.\<close>

definition R2Plus1DClassifier_forward ::
  "(SpatioTemporalConv \<Rightarrow> shape \<Rightarrow> error + shape) \<Rightarrow>
   (SpatioTemporalResLayer \<Rightarrow> shape \<Rightarrow> error + shape) \<Rightarrow>
   bool \<Rightarrow> R2Plus1DClassifier \<Rightarrow> shape \<Rightarrow> error + shape" where
  "R2Plus1DClassifier_forward stc srl training self x =
     and_then (R2Plus1DNet_forward stc srl (rc_res2plus1d self) x) (\<lambda>x.
     Sequential_forward training (rc_linear self) x)"

section \<open>SlowFastDisruptionClassifier\<close>

record SlowFastDisruptionClassifier =
  sdc_input_shape :: shape
  sdc_base_bn_splits :: "int option"
  sdc_slowfast :: SlowFastEncoder
  sdc_classifier :: "layer list"

text \<open>\<^verbatim>\<open>SlowFastDisruptionClassifier.__init__\<close>: the encoder is built and probed, and the
  last dimension of the probe's output is the input dimension of the head.\<close>

definition SlowFastDisruptionClassifier_init ::
  "(resnet_args \<Rightarrow> error + module) \<Rightarrow> (resnet_args \<Rightarrow> error + module) \<Rightarrow>
   (resnet_args \<Rightarrow> shape \<Rightarrow> error + shape \<times> shape list) \<Rightarrow>
   (resnet_args \<Rightarrow> shape \<times> shape list \<Rightarrow> error + shape) \<Rightarrow>
   shape \<Rightarrow> int list \<Rightarrow> int \<Rightarrow> real \<Rightarrow> nat \<Rightarrow> nat \<Rightarrow> int \<Rightarrow> int option \<Rightarrow>
   error + SlowFastDisruptionClassifier" where
  "SlowFastDisruptionClassifier_init new_slownet new_fastnet fastnet slownet ishape layers alpha p
       mlp_hidden num_classes tau_fast base_bn_splits =
     and_then (SlowFastEncoder_init new_slownet new_fastnet ishape layers alpha p tau_fast
                 base_bn_splits) (\<lambda>slowfast.
     and_then (SlowFastEncoder_get_output_size fastnet slownet slowfast) (\<lambda>sz.
     and_then (size_last sz) (\<lambda>slowfast_output_dim.
       Inr \<lparr>sdc_input_shape = ishape, sdc_base_bn_splits = base_bn_splits,
            sdc_slowfast = slowfast,
            sdc_classifier =
              [Linear slowfast_output_dim mlp_hidden, BatchNorm1d mlp_hidden, ReLU,
               Linear mlp_hidden mlp_hidden, BatchNorm1d mlp_hidden, ReLU,
               Linear mlp_hidden num_classes]\<rparr>)))"

definition SlowFastDisruptionClassifier_forward ::
  "(resnet_args \<Rightarrow> shape \<Rightarrow> error + shape \<times> shape list) \<Rightarrow>
   (resnet_args \<Rightarrow> shape \<times> shape list \<Rightarrow> error + shape) \<Rightarrow>
   bool \<Rightarrow> SlowFastDisruptionClassifier \<Rightarrow> shape \<Rightarrow> error + shape" where
  "SlowFastDisruptionClassifier_forward fastnet slownet training self x =
     and_then (SlowFastEncoder_forward_shape fastnet slownet (sdc_slowfast self) x) (\<lambda>x.
     Sequential_forward training (sdc_classifier self) x)"

section \<open>SBERTDisruptionClassifier\<close>

text \<open>
  The sequence encoder \<^verbatim>\<open>SBERT\<close> (\<^verbatim>\<open>src/models/transformer.py\<close>) and the head
  \<^verbatim>\<open>MulticlassClassifier\<close> (\<^verbatim>\<open>src/models/layer.py\<close>) are not among the sources; their
  forward passes are the parameters \<open>sbert\<close> and \<open>classifier\<close>, and the constructor of
  the head is the parameter \<open>new_classifier\<close>.  Of the encoder the classifier reads the
  attributes \<^verbatim>\<open>max_len\<close> and \<^verbatim>\<open>num_features\<close> and the parameters.  The day-of-year tensor
  is an integer tensor and is modelled by its contents, a list of rows; the mask is
  \<^verbatim>\<open>None\<close> or a tensor of integers.
\<close>

record SBERT =
  max_len :: int
  num_features :: nat
  sbert_modules :: module


record SBERTDisruptionClassifier =
  sb_spatio_encoder :: VideoSpatioEncoder
  sb_sbert :: SBERT

text \<open>\<^verbatim>\<open>torch.IntTensor(list(map(int, range(1, max_len + 1)))).repeat(n, 1)\<close>: \<open>n\<close> rows,
  each the numbers from 1 to \<^verbatim>\<open>max_len\<close> (no number when \<^verbatim>\<open>max_len\<close> is below 1).  The
  entries of the tensor are 32-bit integers; a row of more than \<open>2\<^sup>3\<^sup>1 - 1\<close> numbers, which
  does not fit them, is not modelled.\<close>

definition doy_ramp :: "int \<Rightarrow> nat \<Rightarrow> int list list" where
  "doy_ramp len n = replicate n [1..len]"



definition SBERTDisruptionClassifier_forward ::
  "(Conv3dResBlock \<Rightarrow> shape \<Rightarrow> error + shape) \<Rightarrow>
   (SBERT \<Rightarrow> shape \<Rightarrow> int list list \<Rightarrow> int list list option \<Rightarrow> error + shape) \<Rightarrow>
   (shape \<Rightarrow> error + shape) \<Rightarrow>
   SBERTDisruptionClassifier \<Rightarrow> shape \<Rightarrow> error + shape" where
  "SBERTDisruptionClassifier_forward blk sbert classifier self x =
     and_then (VideoSpatioEncoder_forward blk (sb_spatio_encoder self) x) (\<lambda>x.
     and_then (size_at x 0) (\<lambda>n.
       let doy = doy_ramp (max_len (sb_sbert self)) n;
           mask = None in
       and_then (sbert (sb_sbert self) x doy mask) (\<lambda>x.
       classifier x)))"

section \<open>Unet3DClassifier\<close>

text \<open>\<^verbatim>\<open>torch.flatten(x, start_dim = 1)\<close>: dimension 1 must exist.\<close>

definition flatten_from_1 :: "shape \<Rightarrow> error + shape" where
  "flatten_from_1 s =
     (if length s < 2 then Inl (Error Framework IndexError) else Inr [hd s, prod_list (tl s)])"

text \<open>\<^verbatim>\<open>Unet3DClassifier.forward\<close>: the forward passes of \<^verbatim>\<open>UNet3D\<close>
  (\<^verbatim>\<open>src/models/unet3d.py\<close>) and of the residual network (\<^verbatim>\<open>src/models/resnet.py\<close>), both
  not among the sources, are the parameters \<open>unet\<close> and \<open>resnet\<close>; \<open>head\<close> is the
  \<^verbatim>\<open>nn.Sequential\<close> the constructor stores in \<^verbatim>\<open>self.classifier\<close>.\<close>

definition Unet3DClassifier_forward ::
  "(shape \<Rightarrow> error + shape) \<Rightarrow> (shape \<Rightarrow> error + shape) \<Rightarrow> bool \<Rightarrow> layer list \<Rightarrow>
   shape \<Rightarrow> error + shape" where
  "Unet3DClassifier_forward unet resnet training head x =
     and_then (unet x) (\<lambda>x.
     and_then (resnet x) (\<lambda>x.
     and_then (flatten_from_1 x) (\<lambda>x.
     Sequential_forward training head x)))"

section \<open>The other networks\<close>



definition ResNet50_forward :: "(nat \<Rightarrow> shape \<Rightarrow> error + shape) \<Rightarrow> shape \<Rightarrow> error + shape" where
  "ResNet50_forward layer x =
     and_then (layer 0 x) (\<lambda>x.
     and_then (layer 1 x) (\<lambda>x.
     and_then (layer 2 x) (\<lambda>x.
     and_then (layer 3 x) (\<lambda>x.
     layer 4 x))))"

record SITSBertSpatialEncoder =
  sits_input_shape :: shape
  sits_seq_len :: nat


definition SITSBertSpatialEncoder_forward ::
  "(nat \<Rightarrow> shape \<Rightarrow> error + shape) \<Rightarrow> SITSBertSpatialEncoder \<Rightarrow> shape \<Rightarrow> error + shape" where
  "SITSBertSpatialEncoder_forward layer self x =
     and_then (ResNet50_forward layer x) (\<lambda>x.
     and_then (size_at x 0) (\<lambda>n.
     view_infer x [n, sits_seq_len self]))"

datatype ResNet3D_part = Conv1 | Bn1 | Relu | Maxpool | Layer1 | Layer2 | Layer3 | Layer4

record VideoSpatialEncoder =
  vs_input_shape :: shape
  vs_seq_len :: nat



definition VideoSpatialEncoder_forward ::
  "(ResNet3D_part \<Rightarrow> shape \<Rightarrow> error + shape) \<Rightarrow> VideoSpatialEncoder \<Rightarrow> shape \<Rightarrow>
   error + shape" where
  "VideoSpatialEncoder_forward resnet self x =
     and_then (resnet Conv1 x) (\<lambda>x.
     and_then (resnet Bn1 x) (\<lambda>x.
     and_then (resnet Relu x) (\<lambda>x.
     and_then (resnet Maxpool x) (\<lambda>x.
     and_then (resnet Layer1 x) (\<lambda>x.
     and_then (resnet Layer2 x) (\<lambda>x.
     and_then (resnet Layer3 x) (\<lambda>x.
     and_then (resnet Layer4 x) (\<lambda>x.
     and_then (AdaptiveAvgPool3d_1 x) (\<lambda>x.
     and_then (Dropout_forward x) (\<lambda>x.
     and_then (size_at x 0) (\<lambda>n.
     view_infer x [n, vs_seq_len self])))))))))))"

record Conv2d =
  c2_in_channels :: nat
  c2_out_channels :: nat
  c2_kernel_size :: nat

fun Conv2d_forward :: "Conv2d \<Rightarrow> shape \<Rightarrow> error + shape" where
  "Conv2d_forward m [n, c, h, w] =
     (if c \<noteq> c2_in_channels m then Inl (Error Framework RuntimeError)
      else
        and_then (window_out h (c2_kernel_size m) 1 0 1) (\<lambda>h'.
        and_then (window_out w (c2_kernel_size m) 1 0 1) (\<lambda>w'.
        Inr [n, c2_out_channels m, h', w'])))"
| "Conv2d_forward m [c, h, w] =
     (if c \<noteq> c2_in_channels m then Inl (Error Framework RuntimeError)
      else
        and_then (window_out h (c2_kernel_size m) 1 0 1) (\<lambda>h'.
        and_then (window_out w (c2_kernel_size m) 1 0 1) (\<lambda>w'.
        Inr [c2_out_channels m, h', w'])))"
| "Conv2d_forward m s = Inl (Error Framework RuntimeError)"

fun max_pool2d :: "nat \<Rightarrow> shape \<Rightarrow> error + shape" where
  "max_pool2d k [n, c, h, w] =
     (if c = 0 \<or> h = 0 \<or> w = 0 then Inl (Error Framework RuntimeError)
      else
        and_then (pool_out h k k 0) (\<lambda>h'.
        and_then (pool_out w k k 0) (\<lambda>w'.
        Inr [n, c, h', w'])))"
| "max_pool2d k [c, h, w] =
     (if c = 0 \<or> h = 0 \<or> w = 0 then Inl (Error Framework RuntimeError)
      else
        and_then (pool_out h k k 0) (\<lambda>h'.
        and_then (pool_out w k k 0) (\<lambda>w'.
        Inr [c, h', w'])))"
| "max_pool2d k s = Inl (Error Framework RuntimeError)"

definition log_softmax_dim1 :: "shape \<Rightarrow> error + shape" where
  "log_softmax_dim1 x = (if length x < 2 then Inl (Error Framework IndexError) else Inr x)"

record MNIST_Net =
  mn_conv1 :: Conv2d
  mn_conv2 :: Conv2d
  mn_fc1 :: layer
  mn_fc2 :: layer



definition MNIST_Net_forward ::
  "(shape \<Rightarrow> error + shape) \<Rightarrow> bool \<Rightarrow> MNIST_Net \<Rightarrow> shape \<Rightarrow> error + shape" where
  "MNIST_Net_forward stn training self x =
     and_then (size_at x 0) (\<lambda>batch.
     and_then (stn x) (\<lambda>x.
     and_then (Conv2d_forward (mn_conv1 self) x) (\<lambda>x.
     and_then (max_pool2d 2 x) (\<lambda>x.
     and_then (Conv2d_forward (mn_conv2 self) x) (\<lambda>x.
     and_then (max_pool2d 2 x) (\<lambda>x.
     and_then (view_infer x [batch]) (\<lambda>x.
     and_then (layer_forward training (mn_fc1 self) x) (\<lambda>x.
     and_then (layer_forward training (mn_fc2 self) x) (\<lambda>x.
     log_softmax_dim1 x)))))))))"


subsection \<open>The constructor of \<^verbatim>\<open>Unet3DClassifier\<close>\<close>





section \<open>What is assumed of a layer that is a parameter\<close>

text \<open>
  The classes imported from files that are not among the sources are parameters of the
  definitions above.  Where a property depends on them, it is proved for every layer with
  the behaviour every layer of the framework has on the batch dimension: \<open>keeps_batch f\<close>
  says that \<open>f\<close>, when it returns, returns a tensor with the batch size of its input.
\<close>

definition keeps_batch :: "(shape \<Rightarrow> error + shape) \<Rightarrow> bool" where
  "keeps_batch f \<longleftrightarrow> (\<forall>n s r. f (n # s) = Inr r \<longrightarrow> (\<exists>t. r = n # t))"

text \<open>
  \<open>res_layer_shape srl\<close> says in addition that a residual layer, when it returns, returns
  a 5-dimensional tensor with the number of channels the layer was built for.  The three
  predicates after it say of the two networks of the SlowFast encoder and of the sequence
  encoder what \<open>keeps_batch\<close> says of a layer; of the slow network, whose output comes
  first in the concatenation along dimension 1, also that its output has a dimension 1.
\<close>

definition res_layer_shape :: "(SpatioTemporalResLayer \<Rightarrow> shape \<Rightarrow> error + shape) \<Rightarrow> bool" where
  "res_layer_shape srl \<longleftrightarrow>
     (\<forall>c n s r. srl c (n # s) = Inr r \<longrightarrow> (\<exists>t h w. r = [n, srl_out_channels c, t, h, w]))"

definition fastnet_keeps_batch :: "(resnet_args \<Rightarrow> shape \<Rightarrow> error + shape \<times> shape list) \<Rightarrow> bool" where
  "fastnet_keeps_batch fastnet \<longleftrightarrow>
     (\<forall>a n s r ls. fastnet a (n # s) = Inr (r, ls) \<longrightarrow> (\<exists>t. r = n # t))"

definition slownet_keeps_batch :: "(resnet_args \<Rightarrow> shape \<times> shape list \<Rightarrow> error + shape) \<Rightarrow> bool" where
  "slownet_keeps_batch slownet \<longleftrightarrow>
     (\<forall>a n s ls r. slownet a (n # s, ls) = Inr r \<longrightarrow> (\<exists>d t. r = n # d # t))"

definition sbert_keeps_batch ::
  "(SBERT \<Rightarrow> shape \<Rightarrow> int list list \<Rightarrow> int list list option \<Rightarrow> error + shape) \<Rightarrow> bool" where
  "sbert_keeps_batch sbert \<longleftrightarrow>
     (\<forall>m n s doy msk r. sbert m (n # s) doy msk = Inr r \<longrightarrow> (\<exists>t. r = n # t))"

text \<open>
  \<open>at_least_4d f\<close> says that \<open>f\<close>, when it returns, returns a tensor with a batch
  dimension and three more dimensions at least, as a layer of 3-d convolutions over a
  batch of clips does.
\<close>

definition at_least_4d :: "(shape \<Rightarrow> error + shape) \<Rightarrow> bool" where
  "at_least_4d f \<longleftrightarrow> (\<forall>x r. f x = Inr r \<longrightarrow> 4 \<le> length r)"

text \<open>
  Of the blocks of \<^verbatim>\<open>VideoSpatioEncoder\<close> one property below assumes more: that a block
  maps shapes as a 3-d convolution built with the block's arguments does.
  \<open>conv_block_shape b\<close> is that convolution on the shape of a batched input
  \<open>(N, C, T, H, W)\<close>: \<open>C\<close> must be the block's input channels, and each of the three
  axes is windowed with the block's kernel size, stride, padding and dilation.
  \<open>acts_as_conv blk\<close> says that wherever this convolution returns, the block returns a
  tensor of the same shape.
\<close>

fun conv_block_shape :: "Conv3dResBlock \<Rightarrow> shape \<Rightarrow> error + shape" where
  "conv_block_shape b [n, c, t, h, w] =
     (if c \<noteq> blk_in_channels b then Inl (Error Framework RuntimeError)
      else
        and_then (window_out t (blk_kernel_size b) (blk_stride b) (blk_padding b) (blk_dilation b)) (\<lambda>t'.
        and_then (window_out h (blk_kernel_size b) (blk_stride b) (blk_padding b) (blk_dilation b)) (\<lambda>h'.
        and_then (window_out w (blk_kernel_size b) (blk_stride b) (blk_padding b) (blk_dilation b)) (\<lambda>w'.
        Inr [n, blk_out_channels b, t', h', w']))))"
| "conv_block_shape b s = Inl (Error Framework RuntimeError)"

definition acts_as_conv :: "(Conv3dResBlock \<Rightarrow> shape \<Rightarrow> error + shape) \<Rightarrow> bool" where
  "acts_as_conv blk \<longleftrightarrow> (\<forall>b x r. conv_block_shape b x = Inr r \<longrightarrow> blk b x = Inr r)"

text \<open>
  \<open>per_item f\<close> says that \<open>f\<close> treats the items of a batch alike: when it returns on two
  batches whose items have the same shape, the two results have the batch sizes of the
  two inputs and the same shape per item.  For the fast network the same is said of the
  laterals; the slow network is given laterals that differ in the batch size only.
\<close>

definition per_item :: "(shape \<Rightarrow> error + shape) \<Rightarrow> bool" where
  "per_item f \<longleftrightarrow>
     (\<forall>n m s r r'. f (n # s) = Inr r \<longrightarrow> f (m # s) = Inr r' \<longrightarrow>
        (\<exists>t. r = n # t \<and> r' = m # t))"

definition fastnet_per_item :: "(resnet_args \<Rightarrow> shape \<Rightarrow> error + shape \<times> shape list) \<Rightarrow> bool" where
  "fastnet_per_item fastnet \<longleftrightarrow>
     (\<forall>a n m s r ls r' ls'.
        fastnet a (n # s) = Inr (r, ls) \<longrightarrow> fastnet a (m # s) = Inr (r', ls') \<longrightarrow>
        (\<exists>t lt. r = n # t \<and> r' = m # t \<and> ls = map ((#) n) lt \<and> ls' = map ((#) m) lt))"

definition slownet_per_item :: "(resnet_args \<Rightarrow> shape \<times> shape list \<Rightarrow> error + shape) \<Rightarrow> bool" where
  "slownet_per_item slownet \<longleftrightarrow>
     (\<forall>a n m s lt r r'.
        slownet a (n # s, map ((#) n) lt) = Inr r \<longrightarrow>
        slownet a (m # s, map ((#) m) lt) = Inr r' \<longrightarrow>
        (\<exists>t. r = n # t \<and> r' = m # t))"

section \<open>Example inputs\<close>

text \<open>
  Concrete inputs on which the theorems below are run.  \<open>example_clip\<close> is a batch of one
  clip with one channel and eight frames of one pixel, the pixel holding the number of
  the frame.  \<open>example_encoder\<close> has the default arguments of
  \<^verbatim>\<open>SlowFastEncoder.__init__\<close>, with the module trees \<open>example_new_net\<close> returns for its
  two networks.  The two example networks stand in for the networks of
  \<^verbatim>\<open>src/models/slowfast.py\<close>: the fast one returns the number of frames of every channel,
  as features and as laterals; the slow one returns the same of its input, followed by
  the laterals.
\<close>

definition example_clip :: "nat tensor5" where
  "example_clip = [[[[[0]], [[1]], [[2]], [[3]], [[4]], [[5]], [[6]], [[7]]]]]"

definition example_new_net :: "resnet_args \<Rightarrow> error + module" where
  "example_new_net args =
     Inr (Container [Conv3d Default_init None, BatchNorm3d (Some (Default_init, Default_init))])"

definition example_encoder :: SlowFastEncoder where
  "example_encoder =
     \<lparr>sf_input_shape = [3, 8, 112, 112], sf_seq_len = 8, sf_in_channels = 3,
      sf_alpha = 4, sf_tau_fast = 1,
      sf_slownet = \<lparr>rn_layers = [3, 4, 6, 3], rn_alpha = 4, rn_in_channels = 3,
                     rn_slow = 1, rn_base_bn_splits = None\<rparr>,
      sf_fastnet = \<lparr>rn_layers = [3, 4, 6, 3], rn_alpha = 4, rn_in_channels = 3,
                     rn_slow = 0, rn_base_bn_splits = None\<rparr>,
      sf_modules =
        Container
          [Container [Conv3d Default_init None, BatchNorm3d (Some (Default_init, Default_init))],
           Container [Conv3d Default_init None, BatchNorm3d (Some (Default_init, Default_init))],
           Other []]\<rparr>"

definition example_fastnet ::
  "resnet_args \<Rightarrow> 'a tensor5 \<Rightarrow> error + (nat list list \<times> nat list list)" where
  "example_fastnet args x = Inr (map (map length) x, map (map length) x)"

definition example_slownet ::
  "resnet_args \<Rightarrow> 'a tensor5 \<times> nat list list \<Rightarrow> error + nat list list" where
  "example_slownet args xl = Inr (map2 (\<lambda>item lat. map length item @ lat) (fst xl) (snd xl))"

text \<open>
  The spatial encoder \<^verbatim>\<open>VideoSpatioEncoder.__init__\<close> builds for the default input shape,
  a constructor standing in for that of its blocks (the forward pass that stands in for
  the block's is \<open>conv_block_shape\<close>), and a classifier over this encoder and a sequence
  encoder of eight steps.
  \<open>example_sbert\<close> stands in for the sequence encoder: it returns its input unchanged
  when it is called without a mask and with the day-of-year rows \<open>1, ..., max_len\<close>, one
  per batch item, and raises otherwise.  \<open>example_classifier\<close> stands in for the head
  and returns two classes per batch item.
\<close>

definition example_sbert ::
  "SBERT \<Rightarrow> shape \<Rightarrow> int list list \<Rightarrow> int list list option \<Rightarrow> error + shape" where
  "example_sbert m x doy msk =
     (if msk = None \<and> doy = replicate (hd x) [1..max_len m] then Inr x
      else Inl (Error Framework RuntimeError))"

definition example_classifier :: "shape \<Rightarrow> error + shape" where
  "example_classifier x = Inr [hd x, 2]"

definition example_VideoSpatioEncoder :: VideoSpatioEncoder where
  "example_VideoSpatioEncoder =
     \<lparr>input_shape = [3, 8, 112, 112], seq_len = 8,
      conv_block1 = res_block 3 64, pooling_block1 = pooling_block,
      conv_block2 = res_block 64 128, pooling_block2 = pooling_block,
      conv_block3 = res_block 128 256, pooling_block3 = pooling_block,
      conv_block4 = res_block 256 512\<rparr>"


definition example_SBERTDisruptionClassifier :: SBERTDisruptionClassifier where
  "example_SBERTDisruptionClassifier =
     \<lparr>sb_spatio_encoder = example_VideoSpatioEncoder,
      sb_sbert = \<lparr>max_len = 8, num_features = 2304,
                  sbert_modules = Other [Default_init]\<rparr>\<rparr>"

text \<open>
  Stand-ins for the two layer classes of \<^verbatim>\<open>R2Plus1DNet\<close>.  On shapes, \<open>example_stc\<close> is a
  3-d convolution with the kernel, stride, padding and dilation the layer was built with,
  and \<open>example_srl\<close> one with a cubic kernel, half the kernel as padding, and stride 2 when
  the layer downsamples.  The constructors return small module trees with a convolution
  and an affine batch normalisation, as the framework initialises them.
\<close>

fun conv3d_shape ::
  "nat \<Rightarrow> nat \<Rightarrow> nat \<times> nat \<times> nat \<Rightarrow> nat \<times> nat \<times> nat \<Rightarrow> nat \<times> nat \<times> nat \<Rightarrow> nat \<Rightarrow>
   shape \<Rightarrow> error + shape" where
  "conv3d_shape cin cout (kt, kh, kw) (st, sh, sw) (pt, ph, pw) d [n, c, t, h, w] =
     (if c \<noteq> cin then Inl (Error Framework RuntimeError)
      else
        and_then (window_out t kt st pt d) (\<lambda>t'.
        and_then (window_out h kh sh ph d) (\<lambda>h'.
        and_then (window_out w kw sw pw d) (\<lambda>w'.
        Inr [n, cout, t', h', w']))))"
| "conv3d_shape cin cout k s p d x = Inl (Error Framework RuntimeError)"

definition example_stc :: "SpatioTemporalConv \<Rightarrow> shape \<Rightarrow> error + shape" where
  "example_stc c =
     conv3d_shape (stc_in_channels c) (stc_out_channels c) (stc_kernel_size c) (stc_stride c)
       (stc_padding c) (stc_dilation c)"

definition example_srl :: "SpatioTemporalResLayer \<Rightarrow> shape \<Rightarrow> error + shape" where
  "example_srl c =
     (let k = srl_kernel_size c; s = (if srl_downsample c = Some True then 2 else 1) in
      conv3d_shape (srl_in_channels c) (srl_out_channels c) (k, k, k) (s, s, s)
        (k div 2, k div 2, k div 2) (srl_dilation c))"

definition example_new_stc :: "SpatioTemporalConv \<Rightarrow> error + module" where
  "example_new_stc c =
     Inr (Container [Conv3d Default_init None, BatchNorm3d (Some (Default_init, Default_init)),
                     Other []])"

definition example_new_srl :: "SpatioTemporalResLayer \<Rightarrow> error + module" where
  "example_new_srl c =
     Inr (Container [Container [Conv3d Default_init (Some Default_init),
                                BatchNorm3d (Some (Default_init, Default_init))]])"

text \<open>
  Stand-ins, on shapes, for the two networks of the SlowFast encoder (the fast one returns
  256 features per clip and one lateral, the slow one 2048 features), for the 3-d U-Net
  (three output channels) and for the residual network behind it (2048 channels on a
  4 by 4 grid per frame), and a \<^verbatim>\<open>SlowFastDisruptionClassifier\<close> with default arguments.
\<close>

definition example_fastnet_shape :: "resnet_args \<Rightarrow> shape \<Rightarrow> error + shape \<times> shape list" where
  "example_fastnet_shape args x =
     (case x of
        [n, c, t, h, w] \<Rightarrow>
          if c = rn_in_channels args then Inr ([n, 256], [[n, 8, t, h, w]])
          else Inl (Error Framework RuntimeError)
      | _ \<Rightarrow> Inl (Error Framework RuntimeError))"

definition example_slownet_shape :: "resnet_args \<Rightarrow> shape \<times> shape list \<Rightarrow> error + shape" where
  "example_slownet_shape args xl =
     (case fst xl of
        [n, c, t, h, w] \<Rightarrow>
          if c = rn_in_channels args then Inr [n, 2048]
          else Inl (Error Framework RuntimeError)
      | _ \<Rightarrow> Inl (Error Framework RuntimeError))"

definition example_unet :: "shape \<Rightarrow> error + shape" where
  "example_unet x =
     (case x of [n, c, t, h, w] \<Rightarrow> Inr [n, 3, t, h, w] | _ \<Rightarrow> Inl (Error Framework RuntimeError))"

definition example_resnet :: "shape \<Rightarrow> error + shape" where
  "example_resnet x =
     (case x of [n, c, t, h, w] \<Rightarrow> Inr [n, 2048, t, 4, 4] | _ \<Rightarrow> Inl (Error Framework RuntimeError))"

definition example_SlowFastDisruptionClassifier :: SlowFastDisruptionClassifier where
  "example_SlowFastDisruptionClassifier =
     \<lparr>sdc_input_shape = [3, 8, 112, 112], sdc_base_bn_splits = None,
      sdc_slowfast = example_encoder,
      sdc_classifier = [Linear 2304 128, BatchNorm1d 128, ReLU, Linear 128 128, BatchNorm1d 128,
                        ReLU, Linear 128 2]\<rparr>"


definition example_MNIST_Net :: MNIST_Net where
  "example_MNIST_Net =
     \<lparr>mn_conv1 = \<lparr>c2_in_channels = 1, c2_out_channels = 10, c2_kernel_size = 5\<rparr>,
      mn_conv2 = \<lparr>c2_in_channels = 10, c2_out_channels = 20, c2_kernel_size = 5\<rparr>,
      mn_fc1 = Linear 320 50, mn_fc2 = Linear 50 10\<rparr>"

definition example_layer :: "nat \<Rightarrow> shape \<Rightarrow> error + shape" where
  "example_layer i x =
     (case x of [n, c, t, h, w] \<Rightarrow> Inr [n, 256, t, h, w] | _ \<Rightarrow> Inl (Error Framework RuntimeError))"

definition example_resnet3d :: "ResNet3D_part \<Rightarrow> shape \<Rightarrow> error + shape" where
  "example_resnet3d p x =
     (case x of [n, c, t, h, w] \<Rightarrow> Inr [n, 2048, t, h, w] | _ \<Rightarrow> Inl (Error Framework RuntimeError))"


section \<open>Properties of VideoSpatioEncoder\<close>

lemma and_then_Inr_iff: "and_then r f = Inr v \<longleftrightarrow> (\<exists>u. r = Inr u \<and> f u = Inr v)"
  by (cases r) (simp_all add: and_then_def)

lemma AdaptiveAvgPool3d_1_5d [simp]: "AdaptiveAvgPool3d_1 [n, c, t, h, w] = Inr [n, c, 1, 1, 1]"
  by (simp add: AdaptiveAvgPool3d_1_def)

lemma keeps_batchD: "keeps_batch f \<Longrightarrow> f (n # s) = Inr r \<Longrightarrow> \<exists>t. r = n # t"
  by (auto simp: keeps_batch_def)

lemma keeps_batch_and_then:
  "keeps_batch f \<Longrightarrow> keeps_batch g \<Longrightarrow> keeps_batch (\<lambda>x. and_then (f x) g)"
  unfolding keeps_batch_def and_then_Inr_iff by metis

lemma keeps_batch_MaxPool3d: "keeps_batch (MaxPool3d_forward m)"
  unfolding keeps_batch_def
proof (intro allI impI)
  fix n s r
  assume a: "MaxPool3d_forward m (n # s) = Inr r"
  then show "\<exists>t. r = n # t"
    by (cases "(m, n # s)" rule: MaxPool3d_forward.cases)
       (auto simp: and_then_Inr_iff split: prod.splits if_splits)
qed

lemma keeps_batch_conv_block_shape: "keeps_batch (conv_block_shape b)"
  unfolding keeps_batch_def
proof (intro allI impI)
  fix n s r
  assume a: "conv_block_shape b (n # s) = Inr r"
  then obtain c t h w where s: "s = [c, t, h, w]"
    by (cases "(b, n # s)" rule: conv_block_shape.cases) auto
  show "\<exists>t. r = n # t"
    using a unfolding s by (auto simp: and_then_Inr_iff split: if_splits)
qed

lemma VideoSpatioEncoder_blocks_keeps_batch:
  assumes "\<forall>b. keeps_batch (blk b)"
  shows "keeps_batch (VideoSpatioEncoder_blocks blk self)"
proof -
  have "VideoSpatioEncoder_blocks blk self = (\<lambda>x.
     and_then (blk (conv_block1 self) x) (\<lambda>x.
     and_then (MaxPool3d_forward (pooling_block1 self) x) (\<lambda>x.
     and_then (blk (conv_block2 self) x) (\<lambda>x.
     and_then (MaxPool3d_forward (pooling_block2 self) x) (\<lambda>x.
     and_then (blk (conv_block3 self) x) (\<lambda>x.
     and_then (MaxPool3d_forward (pooling_block3 self) x) (\<lambda>x.
     blk (conv_block4 self) x)))))))"
    by (simp add: VideoSpatioEncoder_blocks_def fun_eq_iff)
  then show ?thesis
    using assms by (simp add: keeps_batch_and_then keeps_batch_MaxPool3d)
qed

lemma view_infer_Inr: "view_infer x dims = Inr r \<Longrightarrow> \<exists>d. r = dims @ [d]"
  by (auto simp: view_infer_def Let_def split: if_splits)

lemma VideoSpatioEncoder_forward_keeps_batch:
  assumes "\<forall>b. keeps_batch (blk b)"
  shows "VideoSpatioEncoder_forward blk self (n # s) = Inr r \<Longrightarrow>
     \<exists>d. r = [n, seq_len self, d]"
  using keeps_batchD[OF VideoSpatioEncoder_blocks_keeps_batch[OF assms, of self], of n s]
  by (auto simp: VideoSpatioEncoder_forward_def and_then_Inr_iff size_at_def
      dest!: view_infer_Inr split: if_splits)


lemma view_infer_batch:
  "0 < n \<Longrightarrow> 0 < k \<Longrightarrow> numel s mod k = 0 \<Longrightarrow>
   view_infer (n # s) [n, k] = Inr [n, k, numel s div k]"
  by (simp add: view_infer_def numel_def)



lemma acts_as_convD: "acts_as_conv blk \<Longrightarrow> conv_block_shape b x = Inr r \<Longrightarrow> blk b x = Inr r"
  by (simp add: acts_as_conv_def)

lemma acts_as_conv_conv_block_shape: "acts_as_conv conv_block_shape"
  by (simp add: acts_as_conv_def)

lemma pooling_block_forward:
  "0 < c \<Longrightarrow> 0 < t \<Longrightarrow> 2 < h \<Longrightarrow> 2 < w \<Longrightarrow>
   MaxPool3d_forward pooling_block [n, c, t, h, w] = Inr [n, c, t, h - 2, w - 2]"
  by (auto simp: pooling_block_def MaxPool3d_window_def pool_out_def window_out_def and_then_def)

lemma VideoSpatioEncoder_blocks_default:
  assumes "acts_as_conv blk"
  shows "VideoSpatioEncoder_blocks blk example_VideoSpatioEncoder (N # default_input_shape) =
     Inr [N, 512, 1, 6, 6]"
proof -
  have b1: "blk (res_block 3 64) [N, 3, 8, 112, 112] = Inr [N, 64, 4, 56, 56]"
    by (rule acts_as_convD[OF assms]) (simp add: res_block_def window_out_def and_then_def)
  have b2: "blk (res_block 64 128) [N, 64, 4, 54, 54] = Inr [N, 128, 2, 27, 27]"
    by (rule acts_as_convD[OF assms]) (simp add: res_block_def window_out_def and_then_def)
  have b3: "blk (res_block 128 256) [N, 128, 2, 25, 25] = Inr [N, 256, 1, 13, 13]"
    by (rule acts_as_convD[OF assms]) (simp add: res_block_def window_out_def and_then_def)
  have b4: "blk (res_block 256 512) [N, 256, 1, 11, 11] = Inr [N, 512, 1, 6, 6]"
    by (rule acts_as_convD[OF assms]) (simp add: res_block_def window_out_def and_then_def)
  have p1: "MaxPool3d_forward pooling_block [N, 64, 4, 56, 56] = Inr [N, 64, 4, 54, 54]"
    using pooling_block_forward[of 64 4 56 56 N] by (simp del: MaxPool3d_forward.simps)
  have p2: "MaxPool3d_forward pooling_block [N, 128, 2, 27, 27] = Inr [N, 128, 2, 25, 25]"
    using pooling_block_forward[of 128 2 27 27 N] by (simp del: MaxPool3d_forward.simps)
  have p3: "MaxPool3d_forward pooling_block [N, 256, 1, 13, 13] = Inr [N, 256, 1, 11, 11]"
    using pooling_block_forward[of 256 1 13 13 N] by (simp del: MaxPool3d_forward.simps)
  show ?thesis
    by (simp add: VideoSpatioEncoder_blocks_def example_VideoSpatioEncoder_def
        default_input_shape_def and_then_def b1 b2 b3 b4 p1 p2 p3
        del: MaxPool3d_forward.simps One_nat_def)
qed

lemma VideoSpatioEncoder_forward_default:
  assumes "acts_as_conv blk" and "0 < N"
  shows "VideoSpatioEncoder_forward blk example_VideoSpatioEncoder (N # default_input_shape) =
     Inr [N, 8, 2304]"
proof -
  have "view_infer [N, 512, 1, 6, 6] [N, 8] = Inr [N, 8, numel [512, 1, 6, 6] div 8]"
    using assms(2) by (intro view_infer_batch) (simp_all add: numel_def)
  then show ?thesis
    using VideoSpatioEncoder_blocks_default[OF assms(1), of N]
    by (simp add: VideoSpatioEncoder_forward_def and_then_def size_at_def numel_def
        example_VideoSpatioEncoder_def)
qed

text \<open>
  Whatever the blocks compute, as long as they keep the batch size: on an empty batch the
  forward pass does not return.  The blocks raise, or they return a tensor of no clip,
  and the view of a tensor of no elements with a first dimension 0 and an inferred last
  dimension is refused.
\<close>

lemma VideoSpatioEncoder_forward_empty_batch:
  assumes "\<forall>b. keeps_batch (blk b)"
  shows "VideoSpatioEncoder_forward blk self (0 # s) \<noteq> Inr r"
proof
  assume "VideoSpatioEncoder_forward blk self (0 # s) = Inr r"
  then obtain y n where y: "VideoSpatioEncoder_blocks blk self (0 # s) = Inr y"
    and n: "size_at y 0 = Inr n" and v: "view_infer y [n, seq_len self] = Inr r"
    by (auto simp: VideoSpatioEncoder_forward_def and_then_Inr_iff)
  from keeps_batchD[OF VideoSpatioEncoder_blocks_keeps_batch[OF assms] y]
  obtain u where "y = 0 # u" by blast
  with n v show False
    by (auto simp: size_at_def view_infer_def)
qed





section \<open>Properties of SlowFastEncoder\<close>

subsection \<open>Taking every k-th entry\<close>

lemma length_every_nth:
  "0 < k \<Longrightarrow> length (every_nth k xs) = (length xs + k - 1) div k"
proof (induction k xs rule: every_nth.induct)
  case (1 k)
  then show ?case by simp
next
  case (2 k x xs)
  have rest: "length (every_nth k (drop (k - 1) xs)) = length xs div k"
  proof (cases "length xs < k - 1")
    case True
    then show ?thesis by simp
  next
    case False
    then have "length xs - (k - 1) + k - 1 = length xs"
      using 2(2) by simp
    with 2 show ?thesis by simp
  qed
  have "Suc (length xs) + k - 1 = length xs + k"
    using 2(2) by simp
  moreover have "(length xs + k) div k = Suc (length xs div k)"
    using 2(2) div_add_self2[of k "length xs"] by simp
  ultimately show ?case
    using rest by simp
qed

lemma drop_every_nth:
  "0 < a \<Longrightarrow> drop m (every_nth a ys) = every_nth a (drop (a * m) ys)"
proof (induction m arbitrary: ys)
  case 0
  then show ?case by simp
next
  case (Suc m)
  show ?case
  proof (cases ys)
    case Nil
    then show ?thesis by simp
  next
    case (Cons y ys')
    have e: "a * Suc m = Suc (a * m + (a - 1))"
      using Suc(2) by (simp add: algebra_simps)
    have "drop (Suc m) (every_nth a ys) = drop m (every_nth a (drop (a - 1) ys'))"
      using Cons by simp
    also have "\<dots> = every_nth a (drop (a * m) (drop (a - 1) ys'))"
      using Suc by simp
    also have "\<dots> = every_nth a (drop (a * m + (a - 1)) ys')"
      by simp
    also have "\<dots> = every_nth a (drop (a * Suc m) ys)"
      unfolding e Cons by simp
    finally show ?thesis .
  qed
qed

lemma nth_every_nth:
  assumes "0 < k" and "j < length (every_nth k xs)"
  shows "every_nth k xs ! j = xs ! (j * k)"
proof -
  have "drop j (every_nth k xs) \<noteq> []"
    using assms(2) by simp
  then have ne: "every_nth k (drop (k * j) xs) \<noteq> []"
    using drop_every_nth[OF assms(1)] by metis
  then have "drop (k * j) xs \<noteq> []"
    by auto
  then have lt: "k * j < length xs"
    by simp
  have "every_nth k xs ! j = hd (drop j (every_nth k xs))"
    using assms(2) by (simp add: hd_drop_conv_nth)
  also have "\<dots> = hd (every_nth k (drop (k * j) xs))"
    using drop_every_nth[OF assms(1)] by metis
  also have "\<dots> = hd (drop (k * j) xs)"
    using ne by (cases "drop (k * j) xs") auto
  also have "\<dots> = xs ! (k * j)"
    using lt by (simp add: hd_drop_conv_nth)
  finally show ?thesis
    by (simp add: mult.commute)
qed

lemma every_nth_1: "every_nth (Suc 0) xs = xs"
  by (induction xs) auto

lemma every_nth_mult:
  "0 < a \<Longrightarrow> 0 < b \<Longrightarrow> every_nth b (every_nth a xs) = every_nth (a * b) xs"
proof (induction "a * b" xs rule: every_nth.induct)
  case 1
  then show ?case by simp
next
  case (2 x xs)
  have e: "a * (b - 1) + (a - 1) = a * b - 1"
    using 2(2,3) by (cases b) (simp_all add: algebra_simps)
  have "drop (b - 1) (every_nth a (drop (a - 1) xs)) = every_nth a (drop (a * b - 1) xs)"
    using drop_every_nth[OF 2(2), of "b - 1" "drop (a - 1) xs"] e by (simp add: add.commute)
  then show ?case
    using 2 by simp
qed

lemma subsampled_every_nth: "0 < k \<Longrightarrow> subsampled k xs (every_nth k xs)"
  by (simp add: subsampled_def length_every_nth nth_every_nth)

lemma time_subsampled_map:
  "0 < k \<Longrightarrow> time_subsampled k x (map (map (every_nth k)) x)"
  by (simp add: time_subsampled_def subsampled_every_nth)

lemma every_nth_mult_map:
  "0 < a \<Longrightarrow> 0 < b \<Longrightarrow>
   map (map (every_nth b)) (map (map (every_nth a)) x) = map (map (every_nth (a * b))) x"
  by (simp add: every_nth_mult comp_def)

lemma map_every_nth_1: "map (map (every_nth (Suc 0))) x = x"
  by (simp add: every_nth_1 map_idI)

subsection \<open>Slicing within the 64-bit range\<close>

lemma wrap64_id: "- (2 ^ 63) \<le> i \<Longrightarrow> i < 2 ^ 63 \<Longrightarrow> wrap64 i = i"
  by (simp add: wrap64_def)

lemma slice_step_fits: "0 < k \<Longrightarrow> int n + k < 2 ^ 63 \<Longrightarrow> slice_step k = k"
  by (simp add: slice_step_def)

lemma slice_len64_fits:
  assumes "0 < k" and "int n + k < 2 ^ 63"
  shows "slice_len64 n k = int ((n + nat k - 1) div nat k)"
proof -
  have w: "wrap64 (int n + k - 1) = int n + k - 1"
    using assms by (intro wrap64_id) simp_all
  have "int n + k - 1 = int (n + nat k - 1)"
    using assms(1) by simp
  moreover have "int (n + nat k - 1) div k = int ((n + nat k - 1) div nat k)"
    using assms(1) by (simp add: zdiv_int)
  ultimately show ?thesis
    using assms by (simp add: slice_len64_def slice_step_fits[OF assms] w div_trunc_def)
qed

lemma slice_fits:
  assumes "0 < k" and "int n + k < 2 ^ 63" and "int st * k < 2 ^ 63"
  shows "\<not> slice_refused n st k" and "slice_len n k = (n + nat k - 1) div nat k"
proof -
  have "0 \<le> int st * k"
    using assms(1) by simp
  then have "wrap64 (int st * k) = int st * k"
    using assms(3) by (intro wrap64_id) simp_all
  with \<open>0 \<le> int st * k\<close> show "\<not> slice_refused n st k"
    by (simp add: slice_refused_def slice_len64_fits[OF assms(1,2)]
        slice_step_fits[OF assms(1,2)])
  show "slice_len n k = (n + nat k - 1) div nat k"
    by (simp add: slice_len_def slice_len64_fits[OF assms(1,2)])
qed

lemma take_every_nth:
  "0 < k \<Longrightarrow> take ((length xs + k - 1) div k) (every_nth k xs) = every_nth k xs"
  by (simp add: length_every_nth)

lemma step_fitsD:
  "step_fits k x \<Longrightarrow> item \<in> set x \<Longrightarrow> ch \<in> set item \<Longrightarrow>
   int (length ch) + k < 2 ^ 63 \<and> int (frame_elems ch) * k < 2 ^ 63"
  by (simp add: step_fits_def)

lemma step_fits_mono:
  assumes "step_fits k x" and "0 < j" and "j \<le> k"
  shows "step_fits j x"
  unfolding step_fits_def
proof (intro ballI conjI)
  fix item ch assume m: "item \<in> set x" "ch \<in> set item"
  from step_fitsD[OF assms(1) m] assms(3)
  show "int (length ch) + j < 2 ^ 63"
    by simp
  have "int (frame_elems ch) * j \<le> int (frame_elems ch) * k"
    using assms(3) by (intro mult_left_mono) simp_all
  with step_fitsD[OF assms(1) m]
  show "int (frame_elems ch) * j < 2 ^ 63"
    by simp
qed

lemma slice_time_fits:
  assumes "0 < k" and "step_fits k x"
  shows "slice_time k x = Inr (map (map (every_nth (nat k))) x)"
proof -
  have no: "\<not> list_ex (\<lambda>ch. slice_refused (length ch) (frame_elems ch) k) (concat x)"
    using slice_fits(1)[OF assms(1)] step_fitsD[OF assms(2)]
    by (auto simp: list_ex_iff)
  have ch: "take (slice_len (length ch) k) (every_nth (nat (slice_step k)) ch) =
      every_nth (nat k) ch" if "item \<in> set x" "ch \<in> set item" for item ch
  proof -
    from step_fitsD[OF assms(2) that]
    have f: "int (length ch) + k < 2 ^ 63" "int (frame_elems ch) * k < 2 ^ 63"
      by simp_all
    have "0 < nat k"
      using assms(1) by simp
    then show ?thesis
      unfolding slice_fits(2)[OF assms(1) f] slice_step_fits[OF assms(1) f(1)]
      by (rule take_every_nth)
  qed
  have "map (map (\<lambda>ch. take (slice_len (length ch) k) (every_nth (nat (slice_step k)) ch))) x =
      map (map (every_nth (nat k))) x"
    using ch by (intro map_cong refl) blast
  then show ?thesis
    using assms(1) no by (simp add: slice_time_def)
qed

subsection \<open>The split\<close>

lemma split_slow_fast_Inr:
  assumes "0 < sf_tau_fast self" and "0 < sf_alpha self"
    and "step_fits (sf_tau_fast self * sf_alpha self) x"
  shows "split_slow_fast self x =
     Inr (map (map (every_nth (nat (sf_tau_fast self) * nat (sf_alpha self)))) x,
          map (map (every_nth (nat (sf_tau_fast self)))) x)"
proof -
  have slow: "0 < sf_tau_fast self * sf_alpha self"
    using mult_pos_pos[OF assms(1,2)] .
  have "sf_tau_fast self * 1 \<le> sf_tau_fast self * sf_alpha self"
    using assms(1,2) by (intro mult_left_mono) simp_all
  then have fast: "step_fits (sf_tau_fast self) x"
    using step_fits_mono[OF assms(3) assms(1)] by simp
  show ?thesis
    using assms(1,2)
    by (simp add: split_slow_fast_def Let_def and_then_def slice_time_fits[OF slow assms(3)]
        slice_time_fits[OF assms(1) fast] nat_mult_distrib)
qed

lemma slow_of_fast:
  assumes "0 < sf_tau_fast self" and "0 < sf_alpha self"
  shows "time_subsampled (nat (sf_alpha self))
     (map (map (every_nth (nat (sf_tau_fast self)))) x)
     (map (map (every_nth (nat (sf_tau_fast self) * nat (sf_alpha self)))) x)"
proof -
  have f: "0 < nat (sf_tau_fast self)" and a: "0 < nat (sf_alpha self)"
    using assms by simp_all
  show ?thesis
    using time_subsampled_map[OF a, of "map (map (every_nth (nat (sf_tau_fast self)))) x"]
    by (simp only: every_nth_mult_map[OF f a])
qed

lemma step_fits_example_clip: "step_fits 4 example_clip"
  by (simp add: step_fits_def example_clip_def frame_elems_def)

text \<open>
  C2.  With a positive \<^verbatim>\<open>tau_fast\<close> and \<^verbatim>\<open>alpha\<close> whose product stays within the 64-bit
  range of the framework for the tensor at hand, \<^verbatim>\<open>split_slow_fast\<close> returns the pair
  \<open>(x_slow, x_fast)\<close> for every 5-dimensional tensor \<open>x\<close>: \<open>x_fast\<close> is \<open>x\<close> subsampled along
  the time axis with stride \<^verbatim>\<open>tau_fast\<close>, \<open>x_slow\<close> is \<open>x\<close> subsampled with stride
  \<^verbatim>\<open>tau_fast * alpha\<close>, and \<open>x_slow\<close> is \<open>x_fast\<close> subsampled with stride \<^verbatim>\<open>alpha\<close>: the
  slow stream keeps exactly every \<^verbatim>\<open>alpha\<close>-th frame of the fast one.  With the defaults
  \<^verbatim>\<open>tau_fast = 1\<close> and \<^verbatim>\<open>alpha = 4\<close> the fast stream is \<open>x\<close> itself and the slow stream keeps
  every fourth frame.
\<close>

theorem split_slow_fast_subsamples:
  assumes "0 < sf_tau_fast self" and "0 < sf_alpha self"
    and "step_fits (sf_tau_fast self * sf_alpha self) x"
  shows "\<exists>x_slow x_fast. split_slow_fast self x = Inr (x_slow, x_fast) \<and>
     time_subsampled (nat (sf_tau_fast self)) x x_fast \<and>
     time_subsampled (nat (sf_tau_fast self * sf_alpha self)) x x_slow \<and>
     time_subsampled (nat (sf_alpha self)) x_fast x_slow \<and>
     (sf_tau_fast self = 1 \<and> sf_alpha self = 4 \<longrightarrow>
        x_fast = x \<and> time_subsampled 4 x x_slow)"
proof -
  let ?f = "nat (sf_tau_fast self)" and ?a = "nat (sf_alpha self)"
  let ?fast = "map (map (every_nth ?f)) x"
  let ?slow = "map (map (every_nth (?f * ?a))) x"
  have f: "0 < ?f" and a: "0 < ?a"
    using assms by simp_all
  have prod: "nat (sf_tau_fast self * sf_alpha self) = ?f * ?a"
    using assms by (simp add: nat_mult_distrib)
  have split: "split_slow_fast self x = Inr (?slow, ?fast)"
    by (rule split_slow_fast_Inr[OF assms])
  have 1: "time_subsampled ?f x ?fast"
    by (rule time_subsampled_map[OF f])
  have 2: "time_subsampled (?f * ?a) x ?slow"
    using f a by (intro time_subsampled_map) simp
  have 3: "time_subsampled ?a ?fast ?slow"
    by (rule slow_of_fast[OF assms(1,2)])
  have 4: "?fast = x \<and> time_subsampled 4 x ?slow"
    if "sf_tau_fast self = 1" "sf_alpha self = 4"
    using that 2 by (simp add: map_every_nth_1)
  show ?thesis
    using split 1 2 3 4 unfolding prod by blast
qed

theorem split_slow_fast_subsamples_witness:
  "split_slow_fast example_encoder example_clip = Inr ([[[[[0]], [[4]]]]], example_clip) \<and>
   time_subsampled 4 example_clip [[[[[0]], [[4]]]]]"
proof -
  have fits: "step_fits (sf_tau_fast example_encoder * sf_alpha example_encoder) example_clip"
    using step_fits_example_clip by (simp add: example_encoder_def)
  have "0 < sf_tau_fast example_encoder" and "0 < sf_alpha example_encoder"
    and "sf_tau_fast example_encoder = 1 \<and> sf_alpha example_encoder = 4"
    by (simp_all add: example_encoder_def)
  moreover have "map (map (every_nth 4)) example_clip = [[[[[0]], [[4]]]]]"
    by (simp add: example_clip_def)
  ultimately show ?thesis
    using split_slow_fast_subsamples[of example_encoder example_clip, OF _ _ fits]
      split_slow_fast_Inr[of example_encoder example_clip, OF _ _ fits]
    by (auto simp: map_every_nth_1)
qed

text \<open>
  Outside these bounds the property does not hold.  With \<^verbatim>\<open>alpha = 0\<close> the slice of the
  slow stream has step 0 and is refused.  With \<^verbatim>\<open>alpha\<close> equal to \<open>2\<^sup>6\<^sup>3\<close> the step reaches
  the framework as \<open>2\<^sup>6\<^sup>3 - 1\<close>; for the eight frames of \<open>example_clip\<close> the sum
  \<open>8 + (2\<^sup>6\<^sup>3 - 1) - 1\<close> wraps around to a negative number, the length comes out as 0,
  and the slow stream has no frame, where subsampling with stride \<open>2\<^sup>6\<^sup>3\<close> keeps the
  first.
\<close>

theorem split_slow_fast_step_out_of_range:
  "split_slow_fast (example_encoder\<lparr>sf_alpha := 0\<rparr>) example_clip =
     Inl (Error Framework ValueError) \<and>
   split_slow_fast (example_encoder\<lparr>sf_alpha := 2 ^ 63\<rparr>) example_clip =
     Inr ([[[]]], example_clip) \<and>
   \<not> time_subsampled (nat (1 * 2 ^ 63)) example_clip [[[]]]"
proof -
  have 0: "split_slow_fast (example_encoder\<lparr>sf_alpha := 0\<rparr>) example_clip =
     Inl (Error Framework ValueError)"
    by (simp add: split_slow_fast_def slice_time_def and_then_def example_encoder_def)
  have slow: "slice_time 9223372036854775808 example_clip = Inr [[[]]]"
    by (simp add: slice_time_def example_clip_def frame_elems_def slice_len_def
        slice_refused_def slice_len64_def slice_step_def wrap64_def div_trunc_def)
  have fast: "slice_time 1 example_clip = Inr example_clip"
    using slice_time_fits[of 1 example_clip]
    by (simp add: step_fits_def example_clip_def frame_elems_def map_every_nth_1)
  have 1: "split_slow_fast (example_encoder\<lparr>sf_alpha := 2 ^ 63\<rparr>) example_clip =
     Inr ([[[]]], example_clip)"
    by (simp add: split_slow_fast_def and_then_def example_encoder_def slow fast)
  have 2: "\<not> time_subsampled (nat (1 * 2 ^ 63)) example_clip [[[]]]"
    by (simp add: time_subsampled_def subsampled_def example_clip_def)
  show ?thesis
    using 0 1 2 by blast
qed

subsection \<open>The order of the forward pass\<close>

lemma then_call_untraced_Inr: "then_call (untraced (Inr v)) f = f v"
  by (simp add: then_call_def untraced_def)

lemma then_call_untraced_Inl: "then_call (untraced (Inl e)) f = ([], Inl e)"
  by (simp add: then_call_def untraced_def)

lemma cat_dim1_items:
  "cat_dim1 s f = Inr c \<Longrightarrow> length c = length s \<and> (\<forall>i < length c. c ! i = s ! i @ f ! i)"
  by (auto simp: cat_dim1_def split: if_splits)

text \<open>
  C3.  Whatever the two networks and the dropout layer compute: when the split raises,
  the forward pass raises the same and calls no sub-module.  Otherwise it has split \<open>x\<close>
  into \<open>x_slow\<close> and \<open>x_fast\<close>; it calls the fast network first, on \<open>x_fast\<close>, which returns
  the fast features \<open>f\<close> and the laterals; then the slow network on \<open>x_slow\<close> together with
  those laterals, which returns \<open>s\<close>; then it concatenates \<open>s\<close> and \<open>f\<close> along dimension 1
  (every batch item of the result is the item of \<open>s\<close> followed by the item of \<open>f\<close>); and
  last it applies dropout to the concatenation, whose result it returns.  When a step
  raises, the later steps are not called.  With a positive \<^verbatim>\<open>tau_fast\<close> and \<^verbatim>\<open>alpha\<close> whose
  product stays within the 64-bit range for \<open>x\<close>, the split does not raise, and the slow
  stream keeps every \<^verbatim>\<open>alpha\<close>-th frame of the fast one.
\<close>

theorem SlowFastEncoder_forward_order:
  fixes fastnet :: "resnet_args \<Rightarrow> 'a tensor5 \<Rightarrow> error + ('b list list \<times> 'l)"
  shows "(case split_slow_fast self x of
        Inl e \<Rightarrow>
          SlowFastEncoder_forward split_slow_fast fastnet slownet cat_dim1 dropout self x =
            ([], Inl e)
      | Inr (x_slow, x_fast) \<Rightarrow>
          (case fastnet (sf_fastnet self) x_fast of
             Inl e \<Rightarrow>
               SlowFastEncoder_forward split_slow_fast fastnet slownet cat_dim1 dropout self x =
                 ([Call_fastnet x_fast], Inl e)
           | Inr (f, laterals) \<Rightarrow>
               (case slownet (sf_slownet self) (x_slow, laterals) of
                  Inl e \<Rightarrow>
                    SlowFastEncoder_forward split_slow_fast fastnet slownet cat_dim1 dropout self x =
                      ([Call_fastnet x_fast, Call_slownet x_slow laterals], Inl e)
                | Inr s \<Rightarrow>
                    (case cat_dim1 s f of
                       Inl e \<Rightarrow>
                         SlowFastEncoder_forward split_slow_fast fastnet slownet cat_dim1 dropout
                             self x =
                           ([Call_fastnet x_fast, Call_slownet x_slow laterals, Call_cat s f], Inl e)
                     | Inr c \<Rightarrow>
                         length c = length s \<and> (\<forall>i < length c. c ! i = s ! i @ f ! i) \<and>
                         SlowFastEncoder_forward split_slow_fast fastnet slownet cat_dim1 dropout
                             self x =
                           ([Call_fastnet x_fast, Call_slownet x_slow laterals, Call_cat s f,
                             Call_dropout c], dropout c))))) \<and>
     (0 < sf_tau_fast self \<and> 0 < sf_alpha self \<and>
      step_fits (sf_tau_fast self * sf_alpha self) x \<longrightarrow>
        (\<exists>x_slow x_fast. split_slow_fast self x = Inr (x_slow, x_fast) \<and>
           time_subsampled (nat (sf_alpha self)) x_fast x_slow))"
proof (intro conjI impI)
  show "case split_slow_fast self x of
        Inl e \<Rightarrow>
          SlowFastEncoder_forward split_slow_fast fastnet slownet cat_dim1 dropout self x =
            ([], Inl e)
      | Inr (x_slow, x_fast) \<Rightarrow>
          (case fastnet (sf_fastnet self) x_fast of
             Inl e \<Rightarrow>
               SlowFastEncoder_forward split_slow_fast fastnet slownet cat_dim1 dropout self x =
                 ([Call_fastnet x_fast], Inl e)
           | Inr (f, laterals) \<Rightarrow>
               (case slownet (sf_slownet self) (x_slow, laterals) of
                  Inl e \<Rightarrow>
                    SlowFastEncoder_forward split_slow_fast fastnet slownet cat_dim1 dropout self x =
                      ([Call_fastnet x_fast, Call_slownet x_slow laterals], Inl e)
                | Inr s \<Rightarrow>
                    (case cat_dim1 s f of
                       Inl e \<Rightarrow>
                         SlowFastEncoder_forward split_slow_fast fastnet slownet cat_dim1 dropout
                             self x =
                           ([Call_fastnet x_fast, Call_slownet x_slow laterals, Call_cat s f], Inl e)
                     | Inr c \<Rightarrow>
                         length c = length s \<and> (\<forall>i < length c. c ! i = s ! i @ f ! i) \<and>
                         SlowFastEncoder_forward split_slow_fast fastnet slownet cat_dim1 dropout
                             self x =
                           ([Call_fastnet x_fast, Call_slownet x_slow laterals, Call_cat s f,
                             Call_dropout c], dropout c))))"
  proof (cases "split_slow_fast self x")
    case (Inl e)
    then show ?thesis
      by (simp add: SlowFastEncoder_forward_def then_call_untraced_Inl)
  next
    case (Inr p)
    obtain x_slow x_fast where p: "p = (x_slow, x_fast)"
      by (cases p)
    have fwd: "SlowFastEncoder_forward split_slow_fast fastnet slownet cat_dim1 dropout self x =
       then_call (call (Call_fastnet x_fast) (fastnet (sf_fastnet self) x_fast)) (\<lambda>(x_fast, laterals).
       then_call (call (Call_slownet x_slow laterals) (slownet (sf_slownet self) (x_slow, laterals))) (\<lambda>x_slow.
       then_call (call (Call_cat x_slow x_fast) (cat_dim1 x_slow x_fast)) (\<lambda>x.
       call (Call_dropout x) (dropout x))))"
      by (simp add: SlowFastEncoder_forward_def Inr p then_call_untraced_Inr)
    show ?thesis
      unfolding Inr p fwd
      by (auto simp: then_call_def call_def dest: cat_dim1_items split: sum.splits prod.splits)
  qed
next
  assume a: "0 < sf_tau_fast self \<and> 0 < sf_alpha self \<and>
      step_fits (sf_tau_fast self * sf_alpha self) x"
  then show "\<exists>x_slow x_fast. split_slow_fast self x = Inr (x_slow, x_fast) \<and>
      time_subsampled (nat (sf_alpha self)) x_fast x_slow"
    using split_slow_fast_Inr[of self x] slow_of_fast[of self x] by blast
qed

theorem SlowFastEncoder_forward_order_witness:
  "SlowFastEncoder_forward split_slow_fast example_fastnet example_slownet cat_dim1 Inr
       example_encoder example_clip =
     ([Call_fastnet example_clip, Call_slownet [[[[[0]], [[4]]]]] [[8]],
       Call_cat [[2, 8]] [[8]], Call_dropout [[2, 8, 8]]],
      Inr [[2, 8, 8]]) \<and>
   split_slow_fast example_encoder example_clip = Inr ([[[[[0]], [[4]]]]], example_clip) \<and>
   time_subsampled 4 example_clip [[[[[0]], [[4]]]]]"
proof -
  have fits: "step_fits (sf_tau_fast example_encoder * sf_alpha example_encoder) example_clip"
    using step_fits_example_clip by (simp add: example_encoder_def)
  have pos: "0 < sf_tau_fast example_encoder" "0 < sf_alpha example_encoder"
    by (simp_all add: example_encoder_def)
  have "map (map (every_nth 4)) example_clip = [[[[[0]], [[4]]]]]"
    by (simp add: example_clip_def)
  then have split: "split_slow_fast example_encoder example_clip =
      Inr ([[[[[0]], [[4]]]]], example_clip)"
    using split_slow_fast_Inr[OF pos fits] by (simp add: example_encoder_def map_every_nth_1)
  have fast: "example_fastnet (sf_fastnet example_encoder) example_clip = Inr ([[8]], [[8]])"
    by (simp add: example_fastnet_def example_clip_def)
  have slow: "example_slownet (sf_slownet example_encoder) ([[[[[0::nat]], [[4]]]]], [[8]]) =
     Inr [[2, 8]]"
    by (simp add: example_slownet_def)
  have cat: "cat_dim1 [[2, 8]] [[8::nat]] = Inr [[2, 8, 8]]"
    by (simp add: cat_dim1_def)
  have sub: "time_subsampled 4 example_clip [[[[[0]], [[4]]]]]"
    using SlowFastEncoder_forward_order[where self = example_encoder and x = example_clip
        and fastnet = example_fastnet and slownet = example_slownet and dropout = Inr]
      pos fits split
    by (auto simp: example_encoder_def)
  show ?thesis
    using SlowFastEncoder_forward_order[where self = example_encoder and x = example_clip
        and fastnet = example_fastnet and slownet = example_slownet and dropout = Inr]
      split sub
    by (auto simp: fast slow cat)
qed

section \<open>Properties of SBERTDisruptionClassifier\<close>

lemma doy_ramp_rows:
  "length (doy_ramp len n) = n \<and>
   (\<forall>i < n. length (doy_ramp len n ! i) = nat len \<and>
      (\<forall>j < nat len. doy_ramp len n ! i ! j = int j + 1))"
  by (simp add: doy_ramp_def)

lemma VideoSpatioEncoder_forward_rank3:
  "VideoSpatioEncoder_forward blk self x = Inr r \<Longrightarrow> \<exists>n d. r = [n, seq_len self, d]"
  by (auto simp: VideoSpatioEncoder_forward_def and_then_Inr_iff dest!: view_infer_Inr)

text \<open>
  C6.  For every input \<open>x\<close>, whatever the block, the sequence encoder and the head
  compute: when the spatial encoder raises, the forward pass raises the same; when it
  returns \<open>y\<close>, a tensor of \<open>n\<close> items, the forward pass is the head applied to the
  sequence encoder's result on \<open>y\<close>, on the day-of-year tensor of \<open>n\<close> rows
  \<open>1, 2, ..., max_len\<close>, and on the mask \<^verbatim>\<open>None\<close>.  The sequence encoder is consulted at no
  other arguments: replacing it by any encoder that agrees with it at these arguments
  leaves the result of the forward pass unchanged.  With blocks that keep the batch size,
  \<open>n\<close> is the batch size of \<open>x\<close>.
\<close>

theorem SBERT_forward_fixed_doy_and_mask:
  "case VideoSpatioEncoder_forward blk (sb_spatio_encoder self) x of
     Inl e \<Rightarrow> SBERTDisruptionClassifier_forward blk sbert classifier self x = Inl e
   | Inr y \<Rightarrow>
       (\<exists>n d. y = [n, seq_len (sb_spatio_encoder self), d] \<and>
          (let len = max_len (sb_sbert self); doy = doy_ramp len n in
           length doy = n \<and>
           (\<forall>i < n. length (doy ! i) = nat len \<and> (\<forall>j < nat len. doy ! i ! j = int j + 1)) \<and>
           SBERTDisruptionClassifier_forward blk sbert classifier self x =
             and_then (sbert (sb_sbert self) y doy None) classifier \<and>
           (\<forall>sbert'. sbert' (sb_sbert self) y doy None = sbert (sb_sbert self) y doy None \<longrightarrow>
              SBERTDisruptionClassifier_forward blk sbert' classifier self x =
              SBERTDisruptionClassifier_forward blk sbert classifier self x)) \<and>
          ((\<forall>b. keeps_batch (blk b)) \<longrightarrow> (\<forall>N s. x = N # s \<longrightarrow> n = N)))"
proof (cases "VideoSpatioEncoder_forward blk (sb_spatio_encoder self) x")
  case (Inl e)
  then show ?thesis
    by (simp add: SBERTDisruptionClassifier_forward_def and_then_def)
next
  case (Inr y)
  then obtain n d where y: "y = [n, seq_len (sb_spatio_encoder self), d]"
    using VideoSpatioEncoder_forward_rank3 by blast
  have fwd: "SBERTDisruptionClassifier_forward blk sb classifier self x =
      and_then (sb (sb_sbert self) y (doy_ramp (max_len (sb_sbert self)) n) None) classifier"
    for sb
    using Inr
    by (simp add: SBERTDisruptionClassifier_forward_def and_then_def size_at_def y Let_def)
  have batch: "n = N" if "\<forall>b. keeps_batch (blk b)" "x = N # s" for N s
    using VideoSpatioEncoder_forward_keeps_batch[OF that(1), of "sb_spatio_encoder self" N s]
      Inr that(2) y
    by auto
  have batch': "(\<forall>b. keeps_batch (blk b)) \<longrightarrow> (\<forall>N s. x = N # s \<longrightarrow> n = N)"
    using batch by blast
  show ?thesis
    using Inr y doy_ramp_rows[of "max_len (sb_sbert self)" n] batch'
    by (simp add: Let_def fwd)
qed

theorem SBERT_forward_fixed_doy_and_mask_witness:
  "VideoSpatioEncoder_forward conv_block_shape
       (sb_spatio_encoder example_SBERTDisruptionClassifier) [2, 3, 8, 112, 112] =
     Inr [2, 8, 2304] \<and>
   doy_ramp (max_len (sb_sbert example_SBERTDisruptionClassifier)) 2 =
     [[1, 2, 3, 4, 5, 6, 7, 8], [1, 2, 3, 4, 5, 6, 7, 8]] \<and>
   SBERTDisruptionClassifier_forward conv_block_shape example_sbert example_classifier
       example_SBERTDisruptionClassifier [2, 3, 8, 112, 112] =
     Inr [2, 2]"
proof -
  have enc: "VideoSpatioEncoder_forward conv_block_shape
       (sb_spatio_encoder example_SBERTDisruptionClassifier) [2, 3, 8, 112, 112] =
     Inr [2, 8, 2304]"
    using VideoSpatioEncoder_forward_default[OF acts_as_conv_conv_block_shape, of 2]
    by (simp add: default_input_shape_def example_SBERTDisruptionClassifier_def)
  have doy: "doy_ramp (max_len (sb_sbert example_SBERTDisruptionClassifier)) 2 =
     [[1, 2, 3, 4, 5, 6, 7, 8], [1, 2, 3, 4, 5, 6, 7, 8]]"
    by (simp add: doy_ramp_def example_SBERTDisruptionClassifier_def upto.simps numeral_2_eq_2)
  have "SBERTDisruptionClassifier_forward conv_block_shape example_sbert example_classifier
       example_SBERTDisruptionClassifier [2, 3, 8, 112, 112] =
     and_then (example_sbert (sb_sbert example_SBERTDisruptionClassifier) [2, 8, 2304]
        [[1, 2, 3, 4, 5, 6, 7, 8], [1, 2, 3, 4, 5, 6, 7, 8]] None) example_classifier"
    using SBERT_forward_fixed_doy_and_mask[where blk = conv_block_shape
        and self = example_SBERTDisruptionClassifier and x = "[2, 3, 8, 112, 112]"
        and sbert = example_sbert and classifier = example_classifier]
    by (simp add: enc doy Let_def)
  moreover have "example_sbert (sb_sbert example_SBERTDisruptionClassifier) [2, 8, 2304]
        [[1, 2, 3, 4, 5, 6, 7, 8], [1, 2, 3, 4, 5, 6, 7, 8]] None = Inr [2, 8, 2304]"
    using doy by (simp add: example_sbert_def doy_ramp_def numeral_2_eq_2)
  ultimately show ?thesis
    using enc doy by (simp add: and_then_def example_classifier_def)
qed

section \<open>Properties of R2Plus1DClassifier\<close>

subsection \<open>Weight initialisation\<close>

lemma init_weight_initialised:
  "init_weight m = Inr m' \<Longrightarrow> list_all weights_initialised (modules m')"
  "init_weights ms = Inr ms' \<Longrightarrow> list_all weights_initialised (concat (map modules ms'))"
proof (induction m and ms arbitrary: m' and ms' rule: init_weight_init_weights.induct)
  case (1 w b)
  then show ?case by auto
next
  case (2 p)
  then show ?case by (auto split: option.splits)
next
  case (3 ps)
  then show ?case by auto
next
  case (4 ms)
  then show ?case by (auto simp: and_then_Inr_iff)
next
  case 5
  then show ?case by auto
next
  case (6 m ms)
  then show ?case by (auto simp: and_then_Inr_iff)
qed

lemma init_weight_classes:
  "init_weight m = Inr m' \<Longrightarrow> map class_of (modules m') = map class_of (modules m)"
  "init_weights ms = Inr ms' \<Longrightarrow>
     map class_of (concat (map modules ms')) = map class_of (concat (map modules ms))"
proof (induction m and ms arbitrary: m' and ms' rule: init_weight_init_weights.induct)
  case (1 w b)
  then show ?case by auto
next
  case (2 p)
  then show ?case by (auto split: option.splits)
next
  case (3 ps)
  then show ?case by auto
next
  case (4 ms)
  then show ?case by (auto simp: and_then_Inr_iff)
next
  case 5
  then show ?case by auto
next
  case (6 m ms)
  then show ?case by (auto simp: and_then_Inr_iff)
qed

lemma weights_initialised_iff:
  "weights_initialised m \<longleftrightarrow>
     (\<forall>w b. m = Conv3d w b \<longrightarrow> w = Kaiming_normal) \<and>
     (\<forall>p. m = BatchNorm3d p \<longrightarrow> p = Some (Filled 1, Filled 0))"
  by (cases m) auto

text \<open>
  C10.  When the constructor of \<^verbatim>\<open>R2Plus1DClassifier\<close> returns, with \<^verbatim>\<open>pretrained\<close> set or
  not and whatever module trees the layer constructors have built: the model's module
  tree is the tree of the encoder's layers and the head after \<^verbatim>\<open>__init_weight\<close>; it has the
  same modules of the same classes in the same order; every \<^verbatim>\<open>Conv3d\<close> in it has a Kaiming
  normal weight, and every \<^verbatim>\<open>BatchNorm3d\<close> has its weight filled with 1 and its bias with 0.
\<close>

theorem init_weight_after_construction:
  assumes "R2Plus1DClassifier_init new_stc new_srl stc srl input_size num_classes layer_sizes
             pretrained = Inr self"
  shows "\<exists>net ms head.
     R2Plus1DNet_init new_stc new_srl layer_sizes = Inr (net, ms) \<and>
     init_weight (Container [ms, head]) = Inr (rc_modules self) \<and>
     map class_of (modules (rc_modules self)) = map class_of (modules (Container [ms, head])) \<and>
     (\<forall>m \<in> set (modules (rc_modules self)).
        (\<forall>w b. m = Conv3d w b \<longrightarrow> w = Kaiming_normal) \<and>
        (\<forall>p. m = BatchNorm3d p \<longrightarrow> p = Some (Filled 1, Filled 0)))"
proof -
  let ?head = "Container [Other [Default_init, Default_init], Other [Default_init, Default_init],
                      Other [], Other [Default_init, Default_init]]"
  obtain net ms where net: "R2Plus1DNet_init new_stc new_srl layer_sizes = Inr (net, ms)"
    and init: "init_weight (Container [ms, ?head]) = Inr (rc_modules self)"
    using assms
    by (auto simp: R2Plus1DClassifier_init_def and_then_Inr_iff load_pretrained_weights_def
        Let_def split: if_splits)
  have "list_all weights_initialised (modules (rc_modules self))"
    by (rule init_weight_initialised(1)[OF init])
  then have "\<forall>m \<in> set (modules (rc_modules self)).
        (\<forall>w b. m = Conv3d w b \<longrightarrow> w = Kaiming_normal) \<and>
        (\<forall>p. m = BatchNorm3d p \<longrightarrow> p = Some (Filled 1, Filled 0))"
    unfolding list_all_iff weights_initialised_iff by blast
  then show ?thesis
    using net init init_weight_classes(1)[OF init] by blast
qed

lemma example_probe:
  "get_res2plus1d_output_size example_stc example_srl default_input_shape
     \<lparr>conv1 = first_conv, conv2 = res_layer 64 64 4 None,
      conv3 = res_layer 64 128 4 (Some True), conv4 = res_layer 128 256 4 (Some True),
      conv5 = res_layer 256 512 4 (Some True)\<rparr> = Inr [1, 512]"
  by (simp add: get_res2plus1d_output_size_def R2Plus1DNet_forward_def default_input_shape_def
      and_then_def size_at_def example_stc_def example_srl_def first_conv_def res_layer_def
      window_out_def view_infer_def numel_def Let_def)

lemma example_net_init:
  "R2Plus1DNet_init example_new_stc example_new_srl [4, 4, 4, 4] =
     Inr (\<lparr>conv1 = first_conv, conv2 = res_layer 64 64 4 None,
           conv3 = res_layer 64 128 4 (Some True), conv4 = res_layer 128 256 4 (Some True),
           conv5 = res_layer 256 512 4 (Some True)\<rparr>,
          Container
            [Container [Conv3d Default_init None,
                        BatchNorm3d (Some (Default_init, Default_init)), Other []],
             Container [Container [Conv3d Default_init (Some Default_init),
                                   BatchNorm3d (Some (Default_init, Default_init))]],
             Container [Container [Conv3d Default_init (Some Default_init),
                                   BatchNorm3d (Some (Default_init, Default_init))]],
             Container [Container [Conv3d Default_init (Some Default_init),
                                   BatchNorm3d (Some (Default_init, Default_init))]],
             Container [Container [Conv3d Default_init (Some Default_init),
                                   BatchNorm3d (Some (Default_init, Default_init))]],
             Other []])"
  by (simp add: R2Plus1DNet_init_def and_then_def list_at_def example_new_stc_def
      example_new_srl_def)

theorem init_weight_after_construction_witness:
  "\<exists>self. R2Plus1DClassifier_init example_new_stc example_new_srl example_stc example_srl
        default_input_shape 2 [4, 4, 4, 4] True = Inr self \<and>
     rc_linear self = [Linear 512 128, BatchNorm1d 128, LeakyReLU, Linear 128 2] \<and>
     Conv3d Kaiming_normal None \<in> set (modules (rc_modules self)) \<and>
     BatchNorm3d (Some (Filled 1, Filled 0)) \<in> set (modules (rc_modules self)) \<and>
     list_all weights_initialised (modules (rc_modules self))"
proof -
  obtain self where self: "R2Plus1DClassifier_init example_new_stc example_new_srl example_stc
        example_srl default_input_shape 2 [4, 4, 4, 4] True = Inr self"
    and lin: "rc_linear self = [Linear 512 128, BatchNorm1d 128, LeakyReLU, Linear 128 2]"
    and conv: "Conv3d Kaiming_normal None \<in> set (modules (rc_modules self))"
    and bn: "BatchNorm3d (Some (Filled 1, Filled 0)) \<in> set (modules (rc_modules self))"
    by (simp add: R2Plus1DClassifier_init_def example_net_init example_probe and_then_def
        size_at_def load_pretrained_weights_def)
  have "list_all weights_initialised (modules (rc_modules self))"
    using init_weight_after_construction[OF self]
    unfolding list_all_iff weights_initialised_iff by blast
  then show ?thesis
    using self lin conv bn by blast
qed

section \<open>The batch dimension\<close>

lemma layer_forward_keeps:
  "layer_forward training l (n # y # ys) = Inr r \<Longrightarrow> \<exists>z zs. r = n # z # zs"
proof (cases l)
  case (Linear n_in n_out)
  assume "layer_forward training l (n # y # ys) = Inr r"
  then have "r = n # butlast (y # ys) @ [n_out]"
    using Linear by (auto split: if_splits)
  then show ?thesis
    by (cases "butlast (y # ys)") auto
next
  case (BatchNorm1d c)
  assume "layer_forward training l (n # y # ys) = Inr r"
  then have "r = n # y # ys"
    using BatchNorm1d by (auto split: if_splits)
  then show ?thesis by blast
next
  case LeakyReLU
  assume "layer_forward training l (n # y # ys) = Inr r"
  then have "r = n # y # ys"
    using LeakyReLU by auto
  then show ?thesis by blast
next
  case ReLU
  assume "layer_forward training l (n # y # ys) = Inr r"
  then have "r = n # y # ys"
    using ReLU by auto
  then show ?thesis by blast
qed

lemma Sequential_forward_keeps:
  "Sequential_forward training ls (n # y # ys) = Inr r \<Longrightarrow> \<exists>z zs. r = n # z # zs"
proof (induction ls arbitrary: y ys)
  case Nil
  then have "r = n # y # ys" by simp
  then show ?case by blast
next
  case (Cons l ls)
  then obtain u where u: "layer_forward training l (n # y # ys) = Inr u" and r: "Sequential_forward training ls u = Inr r"
    by (auto simp: and_then_Inr_iff)
  from layer_forward_keeps[OF u] obtain z zs where "u = n # z # zs" by blast
  with r Cons.IH show ?case by blast
qed

lemma R2Plus1DNet_forward_rank2:
  "R2Plus1DNet_forward stc srl net (N # s) = Inr r \<Longrightarrow> \<exists>d. r = [N, d]"
  by (auto simp: R2Plus1DNet_forward_def and_then_Inr_iff size_at_def dest!: view_infer_Inr)

lemma AdaptiveAvgPool3d_1_Inr:
  "AdaptiveAvgPool3d_1 x = Inr r \<Longrightarrow> 3 \<le> length x \<and> r = take (length x - 3) x @ [1, 1, 1]"
  by (auto simp: AdaptiveAvgPool3d_1_def split: if_splits)

lemma AdaptiveAvgPool3d_1_batch:
  "3 \<le> length s \<Longrightarrow>
   AdaptiveAvgPool3d_1 (n # s) = Inr (n # take (length s - 3) s @ [1, 1, 1])"
  by (simp add: AdaptiveAvgPool3d_1_def take_Cons')

lemma R2Plus1DNet_forward_512:
  assumes stc: "\<forall>c. keeps_batch (stc c)" and srl: "res_layer_shape srl"
    and init: "R2Plus1DNet_init new_stc new_srl layer_sizes = Inr (net, ms)"
    and fwd: "R2Plus1DNet_forward stc srl net (N # s) = Inr r"
  shows "r = [N, 512]"
proof -
  have c5: "srl_out_channels (conv5 net) = 512"
    using init by (auto simp: R2Plus1DNet_init_def and_then_Inr_iff res_layer_def)
  from fwd obtain x1 x2 x3 x4 x5 x6 where
    1: "stc (conv1 net) (N # s) = Inr x1" and 2: "srl (conv2 net) x1 = Inr x2"
    and 3: "srl (conv3 net) x2 = Inr x3" and 4: "srl (conv4 net) x3 = Inr x4"
    and 5: "srl (conv5 net) x4 = Inr x5" and 6: "AdaptiveAvgPool3d_1 x5 = Inr x6"
    and 7: "view_infer x6 [N] = Inr r"
    by (auto simp: R2Plus1DNet_forward_def and_then_Inr_iff size_at_def)
  from keeps_batchD[of "stc (conv1 net)", OF _ 1] stc obtain t1 where x1: "x1 = N # t1" by blast
  from srl 2 x1 obtain t2 where x2: "x2 = N # t2" unfolding res_layer_shape_def by blast
  from srl 3 x2 obtain t3 where x3: "x3 = N # t3" unfolding res_layer_shape_def by blast
  from srl 4 x3 obtain t4 where x4: "x4 = N # t4" unfolding res_layer_shape_def by blast
  from srl 5 x4 c5 obtain t h w where x5: "x5 = [N, 512, t, h, w]" unfolding res_layer_shape_def by metis
  from 6 x5 have x6: "x6 = [N, 512, 1, 1, 1]" by (simp add: AdaptiveAvgPool3d_1_def)
  from 7 show ?thesis unfolding x6 by (auto simp: view_infer_def numel_def split: if_splits)
qed

lemma snd_then_call: "snd (then_call m f) = and_then (snd m) (\<lambda>v. snd (f v))"
  by (simp add: then_call_def and_then_def split: sum.splits)

lemma SlowFastEncoder_forward_shape_eq:
  "SlowFastEncoder_forward_shape fastnet slownet self x =
     and_then (split_slow_fast_shape self x) (\<lambda>(x_slow, x_fast).
     and_then (fastnet (sf_fastnet self) x_fast) (\<lambda>(x_fast, laterals).
     and_then (slownet (sf_slownet self) (x_slow, laterals)) (\<lambda>x_slow.
     and_then (cat_shape x_slow x_fast) Dropout_forward)))"
  by (simp add: SlowFastEncoder_forward_shape_def SlowFastEncoder_forward_def snd_then_call
      call_def untraced_def and_then_def split: sum.splits prod.splits)

lemma slice_time_shape_Inr:
  "slice_time_shape k (n # s) = Inr r \<Longrightarrow>
   0 < k \<and> 4 \<le> length s \<and> r = n # s[1 := slice_len (s ! 1) k]"
  by (cases s) (auto simp: slice_time_shape_def split: if_splits)

lemma cat_shape_Inr:
  "cat_shape (n # d # t) b = Inr r \<Longrightarrow> \<exists>z zs. r = n # z # zs"
  by (auto simp: cat_shape_def split: if_splits)

lemma SlowFastEncoder_forward_shape_keeps:
  assumes "fastnet_keeps_batch fastnet" and "slownet_keeps_batch slownet"
    and "SlowFastEncoder_forward_shape fastnet slownet self (N # s) = Inr r"
  shows "\<exists>z zs. r = N # z # zs"
proof -
  from assms(3) obtain xs xf f ls sl c where
    split: "split_slow_fast_shape self (N # s) = Inr (xs, xf)"
    and slow: "slownet (sf_slownet self) (xs, ls) = Inr sl"
    and cat: "cat_shape sl f = Inr c" and r: "Dropout_forward c = Inr r"
    unfolding SlowFastEncoder_forward_shape_eq by (auto simp: and_then_Inr_iff split: prod.splits)
  from split obtain t where "xs = N # t"
    by (auto simp: split_slow_fast_shape_def Let_def and_then_Inr_iff dest!: slice_time_shape_Inr)
  with slow assms(2) obtain d u where "sl = N # d # u" unfolding slownet_keeps_batch_def by blast
  with cat cat_shape_Inr obtain z zs where "c = N # z # zs" by blast
  with r have "r = N # z # zs" by (simp add: Dropout_forward_def)
  then show ?thesis by blast
qed

lemma flatten_from_1_Inr: "flatten_from_1 (n # s) = Inr r \<Longrightarrow> \<exists>d. r = [n, d]"
  by (auto simp: flatten_from_1_def split: if_splits)


text \<open>The stand-ins of the example section have the assumed behaviour.\<close>

lemma conv3d_shape_Inr:
  "conv3d_shape cin cout k st p d x = Inr r \<Longrightarrow>
   \<exists>n t h w t' h' w'. x = [n, cin, t, h, w] \<and> r = [n, cout, t', h', w'] \<and>
     window_out t (fst k) (fst st) (fst p) d = Inr t' \<and>
     window_out h (fst (snd k)) (fst (snd st)) (fst (snd p)) d = Inr h' \<and>
     window_out w (snd (snd k)) (snd (snd st)) (snd (snd p)) d = Inr w'"
  by (cases "(cin, cout, k, st, p, d, x)" rule: conv3d_shape.cases)
     (auto simp: and_then_Inr_iff split: if_splits)

lemma per_item_conv3d_shape: "per_item (conv3d_shape cin cout k st p d)"
  unfolding per_item_def
proof (intro allI impI)
  fix n m s r r'
  assume a: "conv3d_shape cin cout k st p d (n # s) = Inr r"
    and b: "conv3d_shape cin cout k st p d (m # s) = Inr r'"
  from conv3d_shape_Inr[OF a] conv3d_shape_Inr[OF b]
  show "\<exists>t. r = n # t \<and> r' = m # t" by auto
qed

lemma per_item_keeps_batch: "per_item f \<Longrightarrow> keeps_batch f"
  unfolding per_item_def keeps_batch_def by blast

lemma per_item_example_stc: "per_item (example_stc c)"
  by (simp add: example_stc_def per_item_conv3d_shape)

lemma per_item_example_srl: "per_item (example_srl c)"
  by (simp add: example_srl_def per_item_conv3d_shape Let_def)

lemma res_layer_shape_example_srl: "res_layer_shape example_srl"
  unfolding res_layer_shape_def example_srl_def Let_def
  by (auto dest!: conv3d_shape_Inr)

lemma fastnet_per_item_example: "fastnet_per_item example_fastnet_shape"
  unfolding fastnet_per_item_def
proof (intro allI impI)
  fix a n m s r ls r' ls'
  assume 1: "example_fastnet_shape a (n # s) = Inr (r, ls)"
    and 2: "example_fastnet_shape a (m # s) = Inr (r', ls')"
  from 1 obtain c t h w where s: "s = [c, t, h, w]"
    by (auto simp: example_fastnet_shape_def split: list.splits if_splits)
  from 1 2 have "r = n # [256] \<and> r' = m # [256] \<and>
      ls = map ((#) n) [[8, t, h, w]] \<and> ls' = map ((#) m) [[8, t, h, w]]"
    unfolding s by (auto simp: example_fastnet_shape_def split: if_splits)
  then show "\<exists>t lt. r = n # t \<and> r' = m # t \<and> ls = map ((#) n) lt \<and> ls' = map ((#) m) lt"
    by blast
qed

lemma slownet_per_item_example: "slownet_per_item example_slownet_shape"
  unfolding slownet_per_item_def
proof (intro allI impI)
  fix a n m s lt r r'
  assume 1: "example_slownet_shape a (n # s, map ((#) n) lt) = Inr r"
    and 2: "example_slownet_shape a (m # s, map ((#) m) lt) = Inr r'"
  from 1 obtain c t h w where s: "s = [c, t, h, w]"
    by (auto simp: example_slownet_shape_def split: list.splits if_splits)
  from 1 2 have "r = n # [2048] \<and> r' = m # [2048]"
    unfolding s by (auto simp: example_slownet_shape_def split: if_splits)
  then show "\<exists>t. r = n # t \<and> r' = m # t"
    by blast
qed

lemma fastnet_keeps_batch_example: "fastnet_keeps_batch example_fastnet_shape"
  unfolding fastnet_keeps_batch_def
  by (auto simp: example_fastnet_shape_def split: list.splits if_splits)

lemma slownet_keeps_batch_example: "slownet_keeps_batch example_slownet_shape"
  unfolding slownet_keeps_batch_def
  by (auto simp: example_slownet_shape_def split: list.splits if_splits)

lemma sbert_keeps_batch_example: "sbert_keeps_batch example_sbert"
  unfolding sbert_keeps_batch_def
  by (auto simp: example_sbert_def split: if_splits)

lemma keeps_batch_example_classifier: "keeps_batch example_classifier"
  unfolding keeps_batch_def by (auto simp: example_classifier_def)

lemma keeps_batch_example_unet: "keeps_batch example_unet"
  unfolding keeps_batch_def by (auto simp: example_unet_def split: list.splits)

lemma keeps_batch_example_resnet: "keeps_batch example_resnet"
  unfolding keeps_batch_def by (auto simp: example_resnet_def split: list.splits)


lemma ResNet50_forward_keeps:
  assumes "\<forall>i. keeps_batch (layer i)"
  shows "keeps_batch (ResNet50_forward layer)"
proof -
  have "ResNet50_forward layer = (\<lambda>x.
     and_then (layer 0 x) (\<lambda>x.
     and_then (layer 1 x) (\<lambda>x.
     and_then (layer 2 x) (\<lambda>x.
     and_then (layer 3 x) (\<lambda>x.
     layer 4 x)))))"
    by (simp add: ResNet50_forward_def fun_eq_iff)
  then show ?thesis
    using assms by (simp add: keeps_batch_and_then)
qed

lemma SITSBertSpatialEncoder_forward_keeps:
  assumes "\<forall>i. keeps_batch (layer i)"
    and "SITSBertSpatialEncoder_forward layer self (N # s) = Inr r"
  shows "\<exists>d. r = [N, sits_seq_len self, d]"
  using keeps_batchD[OF ResNet50_forward_keeps[OF assms(1)], of N s] assms(2)
  by (auto simp: SITSBertSpatialEncoder_forward_def and_then_Inr_iff size_at_def
      dest!: view_infer_Inr split: if_splits)

lemma keeps_batch_Dropout: "keeps_batch Dropout_forward"
  unfolding keeps_batch_def by (simp add: Dropout_forward_def)

lemma VideoSpatialEncoder_forward_keeps:
  assumes "\<forall>p. keeps_batch (resnet p)" and "at_least_4d (resnet Layer4)"
    and "VideoSpatialEncoder_forward resnet self (N # s) = Inr r"
  shows "\<exists>d. r = [N, vs_seq_len self, d]"
proof -
  let ?body = "\<lambda>x. and_then (resnet Conv1 x) (\<lambda>x.
     and_then (resnet Bn1 x) (\<lambda>x.
     and_then (resnet Relu x) (\<lambda>x.
     and_then (resnet Maxpool x) (\<lambda>x.
     and_then (resnet Layer1 x) (\<lambda>x.
     and_then (resnet Layer2 x) (\<lambda>x.
     and_then (resnet Layer3 x) (resnet Layer4)))))))"
  have kb: "keeps_batch ?body"
    using assms(1) by (intro keeps_batch_and_then) simp_all
  from assms(3) obtain z y n where z: "?body (N # s) = Inr z"
    and y: "and_then (AdaptiveAvgPool3d_1 z) Dropout_forward = Inr y"
    and n: "size_at y 0 = Inr n" and v: "view_infer y [n, vs_seq_len self] = Inr r"
    by (auto simp: VideoSpatialEncoder_forward_def and_then_Inr_iff)
  from z obtain z' where z': "resnet Layer4 z' = Inr z"
    by (auto simp: and_then_Inr_iff)
  from keeps_batchD[OF kb z] obtain t where t: "z = N # t" by blast
  from z' assms(2) have "3 \<le> length t"
    unfolding t at_least_4d_def by fastforce
  from AdaptiveAvgPool3d_1_batch[OF this, of N] y
  have "y = N # take (length t - 3) t @ [1, 1, 1]"
    unfolding t by (simp add: and_then_def Dropout_forward_def)
  with n v show ?thesis
    by (auto simp: size_at_def dest!: view_infer_Inr)
qed

lemma layer_forward_keeps2:
  "layer_forward training l [n, d] = Inr r \<Longrightarrow> \<exists>d'. r = [n, d']"
  by (cases l) (auto split: if_splits)

lemma MNIST_Net_forward_keeps:
  assumes "MNIST_Net_forward stn training self (N # s) = Inr r"
  shows "\<exists>d. r = [N, d]"
proof -
  from assms obtain y a b where y: "view_infer y [N] = Inr a"
    and a: "layer_forward training (mn_fc1 self) a = Inr b"
    and b: "layer_forward training (mn_fc2 self) b = Inr r"
    by (auto simp: MNIST_Net_forward_def and_then_Inr_iff size_at_def log_softmax_dim1_def
        split: if_splits)
  from view_infer_Inr[OF y] obtain d where "a = [N, d]" by auto
  with a layer_forward_keeps2 obtain d' where "b = [N, d']" by blast
  with b layer_forward_keeps2 show ?thesis by blast
qed

lemma keeps_batch_example_layer: "keeps_batch (example_layer i)"
  unfolding keeps_batch_def by (auto simp: example_layer_def split: list.splits)

lemma keeps_batch_example_resnet3d: "keeps_batch (example_resnet3d p)"
  unfolding keeps_batch_def by (auto simp: example_resnet3d_def split: list.splits)


text \<open>
  C9.  Every forward pass keeps the leading batch dimension: for an input whose first
  dimension is \<open>N\<close>, what \<^verbatim>\<open>R2Plus1DNet.forward\<close>, \<^verbatim>\<open>VideoSpatioEncoder.forward\<close>,
  \<^verbatim>\<open>SlowFastEncoder.forward\<close>, the forward pass of each of the four classifiers, and
  those of \<^verbatim>\<open>ResNet50\<close>, \<^verbatim>\<open>SITSBertSpatialEncoder\<close>, \<^verbatim>\<open>VideoSpatialEncoder\<close> and
  \<^verbatim>\<open>MNIST_Net\<close> return has first dimension \<open>N\<close>.  This is proved for layers and networks
  (the parameters) that keep the batch dimension themselves, where a residual layer
  returns a 5-dimensional tensor with the channels it was built for, the slow network a
  tensor with a dimension 1, and \<^verbatim>\<open>layer4\<close> of the network of \<^verbatim>\<open>VideoSpatialEncoder\<close> a
  tensor of four dimensions at least (the pooling that follows it averages the last three
  dimensions, whichever they are).  A network built by \<^verbatim>\<open>R2Plus1DNet.__init__\<close> returns
  a 2-dimensional tensor of shape \<open>(N, 512)\<close>: the last layer has 512 channels, the
  pooling leaves one cell per channel, and the view flattens it.
\<close>

theorem forward_keeps_batch_dimension:
  assumes "\<forall>c. keeps_batch (stc c)" and "res_layer_shape srl"
    and "\<forall>b. keeps_batch (blk b)"
    and "fastnet_keeps_batch fastnet" and "slownet_keeps_batch slownet"
    and "sbert_keeps_batch sbert" and "keeps_batch classifier"
    and "keeps_batch unet" and "keeps_batch resnet"
    and "R2Plus1DNet_init new_stc new_srl layer_sizes = Inr (net, ms)"
    and "\<forall>i. keeps_batch (layer i)" and "\<forall>p. keeps_batch (resnet3d p)"
    and "at_least_4d (resnet3d Layer4)"
  shows "(\<forall>r. R2Plus1DNet_forward stc srl net (N # s) = Inr r \<longrightarrow> r = [N, 512]) \<and>
     (\<forall>r. R2Plus1DClassifier_forward stc srl training r2 (N # s) = Inr r \<longrightarrow> (\<exists>t. r = N # t)) \<and>
     (\<forall>r. VideoSpatioEncoder_forward blk enc (N # s) = Inr r \<longrightarrow> (\<exists>t. r = N # t)) \<and>
     (\<forall>r. SlowFastEncoder_forward_shape fastnet slownet sf (N # s) = Inr r \<longrightarrow> (\<exists>t. r = N # t)) \<and>
     (\<forall>r. SlowFastDisruptionClassifier_forward fastnet slownet training sdc (N # s) = Inr r \<longrightarrow>
        (\<exists>t. r = N # t)) \<and>
     (\<forall>r. SBERTDisruptionClassifier_forward blk sbert classifier sb (N # s) = Inr r \<longrightarrow>
        (\<exists>t. r = N # t)) \<and>
     (\<forall>r. Unet3DClassifier_forward unet resnet training head (N # s) = Inr r \<longrightarrow> (\<exists>t. r = N # t)) \<and>
     (\<forall>r. ResNet50_forward layer (N # s) = Inr r \<longrightarrow> (\<exists>t. r = N # t)) \<and>
     (\<forall>r. SITSBertSpatialEncoder_forward layer sits (N # s) = Inr r \<longrightarrow>
        (\<exists>d. r = [N, sits_seq_len sits, d])) \<and>
     (\<forall>r. VideoSpatialEncoder_forward resnet3d vs (N # s) = Inr r \<longrightarrow>
        (\<exists>d. r = [N, vs_seq_len vs, d])) \<and>
     (\<forall>r. MNIST_Net_forward stn training mnist (N # s) = Inr r \<longrightarrow> (\<exists>d. r = [N, d]))"
proof (intro conjI allI impI)
  fix r assume "R2Plus1DNet_forward stc srl net (N # s) = Inr r"
  then show "r = [N, 512]"
    by (rule R2Plus1DNet_forward_512[OF assms(1,2,10)])
next
  fix r assume "R2Plus1DClassifier_forward stc srl training r2 (N # s) = Inr r"
  then obtain u where "R2Plus1DNet_forward stc srl (rc_res2plus1d r2) (N # s) = Inr u"
    and "Sequential_forward training (rc_linear r2) u = Inr r"
    by (auto simp: R2Plus1DClassifier_forward_def and_then_Inr_iff)
  then show "\<exists>t. r = N # t"
    using R2Plus1DNet_forward_rank2 Sequential_forward_keeps by blast
next
  fix r assume "VideoSpatioEncoder_forward blk enc (N # s) = Inr r"
  then show "\<exists>t. r = N # t"
    using VideoSpatioEncoder_forward_keeps_batch[OF assms(3)] by blast
next
  fix r assume "SlowFastEncoder_forward_shape fastnet slownet sf (N # s) = Inr r"
  then show "\<exists>t. r = N # t"
    using SlowFastEncoder_forward_shape_keeps[OF assms(4,5)] by blast
next
  fix r assume "SlowFastDisruptionClassifier_forward fastnet slownet training sdc (N # s) = Inr r"
  then obtain u where "SlowFastEncoder_forward_shape fastnet slownet (sdc_slowfast sdc) (N # s) = Inr u"
    and "Sequential_forward training (sdc_classifier sdc) u = Inr r"
    by (auto simp: SlowFastDisruptionClassifier_forward_def and_then_Inr_iff)
  then show "\<exists>t. r = N # t"
    using SlowFastEncoder_forward_shape_keeps[OF assms(4,5)] Sequential_forward_keeps by blast
next
  fix r assume "SBERTDisruptionClassifier_forward blk sbert classifier sb (N # s) = Inr r"
  then obtain y n u where y: "VideoSpatioEncoder_forward blk (sb_spatio_encoder sb) (N # s) = Inr y"
    and u: "sbert (sb_sbert sb) y (doy_ramp (max_len (sb_sbert sb)) n) None = Inr u"
    and r: "classifier u = Inr r"
    by (auto simp: SBERTDisruptionClassifier_forward_def and_then_Inr_iff Let_def)
  from y VideoSpatioEncoder_forward_keeps_batch[OF assms(3)] obtain t where "y = N # t" by blast
  with u assms(6) obtain t' where "u = N # t'" unfolding sbert_keeps_batch_def by blast
  with r assms(7) show "\<exists>t. r = N # t" unfolding keeps_batch_def by blast
next
  fix r assume "Unet3DClassifier_forward unet resnet training head (N # s) = Inr r"
  then obtain a b c where a: "unet (N # s) = Inr a" and b: "resnet a = Inr b"
    and c: "flatten_from_1 b = Inr c" and r: "Sequential_forward training head c = Inr r"
    by (auto simp: Unet3DClassifier_forward_def and_then_Inr_iff)
  from a assms(8) obtain t where "a = N # t" unfolding keeps_batch_def by blast
  with b assms(9) obtain t' where "b = N # t'" unfolding keeps_batch_def by blast
  with c flatten_from_1_Inr obtain d where "c = [N, d]" by blast
  with r Sequential_forward_keeps show "\<exists>t. r = N # t" by blast
next
  fix r assume "ResNet50_forward layer (N # s) = Inr r"
  then show "\<exists>t. r = N # t"
    using keeps_batchD[OF ResNet50_forward_keeps[OF assms(11)]] by blast
next
  fix r assume "SITSBertSpatialEncoder_forward layer sits (N # s) = Inr r"
  then show "\<exists>d. r = [N, sits_seq_len sits, d]"
    by (rule SITSBertSpatialEncoder_forward_keeps[OF assms(11)])
next
  fix r assume "VideoSpatialEncoder_forward resnet3d vs (N # s) = Inr r"
  then show "\<exists>d. r = [N, vs_seq_len vs, d]"
    by (rule VideoSpatialEncoder_forward_keeps[OF assms(12,13)])
next
  fix r assume "MNIST_Net_forward stn training mnist (N # s) = Inr r"
  then show "\<exists>d. r = [N, d]"
    by (rule MNIST_Net_forward_keeps)
qed


section \<open>Wiring the head to the encoder\<close>

lemma per_itemD:
  "per_item f \<Longrightarrow> f (n # s) = Inr r \<Longrightarrow> f (m # s) = Inr r' \<Longrightarrow> \<exists>t. r = n # t \<and> r' = m # t"
  unfolding per_item_def by blast

lemma R2Plus1DNet_forward_per_item:
  assumes stc: "\<forall>c. per_item (stc c)" and srl: "\<forall>c. per_item (srl c)"
    and probe: "R2Plus1DNet_forward stc srl net (1 # s) = Inr sz"
    and fwd: "R2Plus1DNet_forward stc srl net (N # s) = Inr r"
  shows "\<exists>d. sz = [1, d] \<and> r = [N, d]"
proof -
  from fwd obtain x1 x2 x3 x4 x5 x6 where
    1: "stc (conv1 net) (N # s) = Inr x1" and 2: "srl (conv2 net) x1 = Inr x2"
    and 3: "srl (conv3 net) x2 = Inr x3" and 4: "srl (conv4 net) x3 = Inr x4"
    and 5: "srl (conv5 net) x4 = Inr x5" and 6: "AdaptiveAvgPool3d_1 x5 = Inr x6"
    and 7: "view_infer x6 [N] = Inr r"
    by (auto simp: R2Plus1DNet_forward_def and_then_Inr_iff size_at_def)
  from probe obtain y1 y2 y3 y4 y5 y6 where
    p1: "stc (conv1 net) (1 # s) = Inr y1" and p2: "srl (conv2 net) y1 = Inr y2"
    and p3: "srl (conv3 net) y2 = Inr y3" and p4: "srl (conv4 net) y3 = Inr y4"
    and p5: "srl (conv5 net) y4 = Inr y5" and p6: "AdaptiveAvgPool3d_1 y5 = Inr y6"
    and p7: "view_infer y6 [1] = Inr sz"
    by (auto simp: R2Plus1DNet_forward_def and_then_Inr_iff size_at_def)
  from per_itemD[OF _ 1 p1] stc obtain t1 where t1: "x1 = N # t1" "y1 = 1 # t1" by blast
  from per_itemD[OF _ 2[unfolded t1] p2[unfolded t1]] srl obtain t2 where t2: "x2 = N # t2" "y2 = 1 # t2" by blast
  from per_itemD[OF _ 3[unfolded t2] p3[unfolded t2]] srl obtain t3 where t3: "x3 = N # t3" "y3 = 1 # t3" by blast
  from per_itemD[OF _ 4[unfolded t3] p4[unfolded t3]] srl obtain t4 where t4: "x4 = N # t4" "y4 = 1 # t4" by blast
  from per_itemD[OF _ 5[unfolded t4] p5[unfolded t4]] srl obtain t5 where t5: "x5 = N # t5" "y5 = 1 # t5" by blast
  from AdaptiveAvgPool3d_1_Inr[OF 6] have len: "2 \<le> length t5"
    unfolding t5 by simp
  show ?thesis
  proof (cases "length t5 = 2")
    case True
    then have x6: "x6 = [1, 1, 1]" and y6: "y6 = [1, 1, 1]"
      using 6 p6 unfolding t5 by (simp_all add: AdaptiveAvgPool3d_1_def)
    from p7 have sz: "sz = [1, 1]"
      unfolding y6 by (auto simp: view_infer_def numel_def split: if_splits)
    from 7 have "N = 1 \<and> r = [N, 1]"
      unfolding x6 by (auto simp: view_infer_def numel_def split: if_splits)
    with sz show ?thesis by blast
  next
    case False
    with len have l3: "3 \<le> length t5" by simp
    define u where "u = take (length t5 - 3) t5 @ [1, 1, 1]"
    from 6 have x6: "x6 = N # u"
      unfolding t5 u_def AdaptiveAvgPool3d_1_batch[OF l3] by simp
    from p6 have y6: "y6 = 1 # u"
      unfolding t5 u_def AdaptiveAvgPool3d_1_batch[OF l3] by simp
    from p7 have "sz = [1, prod_list u]"
      unfolding y6 by (auto simp: view_infer_def numel_def split: if_splits)
    moreover from 7 have "r = [N, prod_list u]"
      unfolding x6 by (auto simp: view_infer_def numel_def split: if_splits)
    ultimately show ?thesis by blast
  qed
qed


lemma cat_shape_Cons:
  "cat_shape (n # a) (m # b) = Inr r \<Longrightarrow> a \<noteq> [] \<Longrightarrow> b \<noteq> [] \<Longrightarrow>
   r = n # a[0 := hd a + hd b]"
  by (cases a; cases b) (auto simp: cat_shape_def split: if_splits)

lemma cat_shape_probe:
  "cat_shape (m # a) (m # b) = Inr r \<Longrightarrow> 0 < m \<Longrightarrow> a \<noteq> [] \<and> b \<noteq> []"
  by (cases a; cases b) (auto simp: cat_shape_def split: if_splits)

lemma cat_shape_per_item:
  assumes "cat_shape (n # a) (n # b) = Inr r" and "cat_shape (m # a) (m # b) = Inr r'"
    and "0 < m"
  shows "\<exists>u. u \<noteq> [] \<and> r = n # u \<and> r' = m # u"
proof -
  from cat_shape_probe[OF assms(2,3)] have ne: "a \<noteq> []" "b \<noteq> []"
    by simp_all
  from cat_shape_Cons[OF assms(1) ne] cat_shape_Cons[OF assms(2) ne] ne(1)
  show ?thesis by (cases a) auto
qed

lemma split_slow_fast_shape_per_item:
  assumes "split_slow_fast_shape self (n # s) = Inr (xs, xf)"
    and "split_slow_fast_shape self (m # s) = Inr (xs', xf')"
  shows "\<exists>ts tf. xs = n # ts \<and> xs' = m # ts \<and> xf = n # tf \<and> xf' = m # tf"
  using assms
  by (auto simp: split_slow_fast_shape_def Let_def and_then_Inr_iff dest!: slice_time_shape_Inr)

lemma SlowFastEncoder_forward_shape_per_item:
  assumes fast: "fastnet_per_item fastnet" and slow: "slownet_per_item slownet"
    and probe: "SlowFastEncoder_forward_shape fastnet slownet self (m # s) = Inr out"
    and fwd: "SlowFastEncoder_forward_shape fastnet slownet self (n # s) = Inr r"
    and m: "0 < m"
  shows "\<exists>u. u \<noteq> [] \<and> out = m # u \<and> r = n # u"
proof -
  from fwd obtain xs xf f ls sl c where
    split: "split_slow_fast_shape self (n # s) = Inr (xs, xf)"
    and f: "fastnet (sf_fastnet self) xf = Inr (f, ls)"
    and sl: "slownet (sf_slownet self) (xs, ls) = Inr sl"
    and cat: "cat_shape sl f = Inr c" and r: "Dropout_forward c = Inr r"
    unfolding SlowFastEncoder_forward_shape_eq by (auto simp: and_then_Inr_iff split: prod.splits)
  from probe obtain xs' xf' f' ls' sl' c' where
    split': "split_slow_fast_shape self (m # s) = Inr (xs', xf')"
    and f': "fastnet (sf_fastnet self) xf' = Inr (f', ls')"
    and sl': "slownet (sf_slownet self) (xs', ls') = Inr sl'"
    and cat': "cat_shape sl' f' = Inr c'" and out: "Dropout_forward c' = Inr out"
    unfolding SlowFastEncoder_forward_shape_eq by (auto simp: and_then_Inr_iff split: prod.splits)
  from split_slow_fast_shape_per_item[OF split split'] obtain ts tf where
    x: "xs = n # ts" "xs' = m # ts" "xf = n # tf" "xf' = m # tf" by blast
  from fast f f' obtain t lt where
    ft: "f = n # t" "f' = m # t" "ls = map ((#) n) lt" "ls' = map ((#) m) lt"
    unfolding fastnet_per_item_def x by blast
  from slow sl sl' obtain t' where st: "sl = n # t'" "sl' = m # t'"
    unfolding slownet_per_item_def x ft by blast
  from cat_shape_per_item[OF cat[unfolded st ft] cat'[unfolded st ft] m]
  obtain u where "u \<noteq> []" "c = n # u" "c' = m # u" by blast
  with r out show ?thesis by (auto simp: Dropout_forward_def)
qed

lemma head_R2Plus1D:
  "\<not> (training \<and> N = 1) \<Longrightarrow>
   Sequential_forward training [Linear d 128, BatchNorm1d 128, LeakyReLU, Linear 128 k] [N, d] =
     Inr [N, k]"
  by (auto simp: and_then_def)

lemma head_SlowFast:
  "\<not> (training \<and> N = 1) \<Longrightarrow>
   Sequential_forward training
     [Linear d h, BatchNorm1d h, ReLU, Linear h h, BatchNorm1d h, ReLU, Linear h k] [N, d] =
     Inr [N, k]"
  by (auto simp: and_then_def)

lemma R2Plus1DClassifier_head_wired:
  assumes "\<forall>c. per_item (stc c)" and "\<forall>c. per_item (srl c)"
    and init: "R2Plus1DClassifier_init new_stc new_srl stc srl input_size num_classes
              layer_sizes pretrained = Inr self"
  shows "\<exists>d. get_res2plus1d_output_size stc srl input_size (rc_res2plus1d self) = Inr [1, d] \<and>
          rc_linear self = [Linear d 128, BatchNorm1d 128, LeakyReLU, Linear 128 num_classes] \<and>
          (\<forall>N r. R2Plus1DNet_forward stc srl (rc_res2plus1d self) (N # input_size) = Inr r \<longrightarrow>
             r = [N, d] \<and> layer_forward training (Linear d 128) r = Inr [N, 128] \<and>
             (\<not> (training \<and> N = 1) \<longrightarrow>
                R2Plus1DClassifier_forward stc srl training self (N # input_size) =
                  Inr [N, num_classes]))"
proof -
  from init obtain sz d where
    probe: "R2Plus1DNet_forward stc srl (rc_res2plus1d self) (1 # input_size) = Inr sz"
    and d: "size_at sz 1 = Inr d"
    and lin: "rc_linear self = [Linear d 128, BatchNorm1d 128, LeakyReLU, Linear 128 num_classes]"
    by (auto simp: R2Plus1DClassifier_init_def and_then_Inr_iff load_pretrained_weights_def
        get_res2plus1d_output_size_def Let_def split: if_splits)
  from R2Plus1DNet_forward_rank2[OF probe] d have sz: "sz = [1, d]"
    by (auto simp: size_at_def)
  have probe': "get_res2plus1d_output_size stc srl input_size (rc_res2plus1d self) = Inr [1, d]"
    using probe sz by (simp add: get_res2plus1d_output_size_def)
  have all: "r = [N, d] \<and> layer_forward training (Linear d 128) r = Inr [N, 128] \<and>
             (\<not> (training \<and> N = 1) \<longrightarrow>
                R2Plus1DClassifier_forward stc srl training self (N # input_size) =
                  Inr [N, num_classes])"
    if fwd: "R2Plus1DNet_forward stc srl (rc_res2plus1d self) (N # input_size) = Inr r" for N r
  proof -
    from R2Plus1DNet_forward_per_item[OF assms(1,2) probe fwd] sz have r: "r = [N, d]"
      by auto
    have "R2Plus1DClassifier_forward stc srl training self (N # input_size) =
        Sequential_forward training
          [Linear d 128, BatchNorm1d 128, LeakyReLU, Linear 128 num_classes] [N, d]"
      using fwd unfolding r by (simp add: R2Plus1DClassifier_forward_def lin and_then_def)
    then show ?thesis
      using head_R2Plus1D[of training N d num_classes] r by simp
  qed
  show ?thesis
    using probe' lin all by blast
qed

lemma SlowFastDisruptionClassifier_head_wired:
  assumes "fastnet_per_item fastnet" and "slownet_per_item slownet"
    and init: "SlowFastDisruptionClassifier_init new_slownet new_fastnet fastnet slownet ishape
              layers alpha p mlp_hidden classes tau_fast base_bn_splits = Inr self"
  shows "\<exists>out d. SlowFastEncoder_get_output_size fastnet slownet (sdc_slowfast self) = Inr out \<and>
          size_last out = Inr d \<and>
          sdc_classifier self =
            [Linear d mlp_hidden, BatchNorm1d mlp_hidden, ReLU,
             Linear mlp_hidden mlp_hidden, BatchNorm1d mlp_hidden, ReLU,
             Linear mlp_hidden classes] \<and>
          (\<forall>N r. SlowFastEncoder_forward_shape fastnet slownet (sdc_slowfast self) (N # ishape) =
                   Inr r \<longrightarrow>
             r \<noteq> [] \<and> hd r = N \<and> last r = d \<and>
             layer_forward training (Linear d mlp_hidden) r = Inr (butlast r @ [mlp_hidden]) \<and>
             (length r = 2 \<and> \<not> (training \<and> N = 1) \<longrightarrow>
                SlowFastDisruptionClassifier_forward fastnet slownet training self (N # ishape) =
                  Inr [N, classes]))"
proof -
  from init obtain slowfast out d where
    sf: "SlowFastEncoder_init new_slownet new_fastnet ishape layers alpha p tau_fast
           base_bn_splits = Inr slowfast"
    and probe0: "SlowFastEncoder_get_output_size fastnet slownet slowfast = Inr out"
    and d: "size_last out = Inr d"
    and self: "self = \<lparr>sdc_input_shape = ishape, sdc_base_bn_splits = base_bn_splits,
            sdc_slowfast = slowfast,
            sdc_classifier =
              [Linear d mlp_hidden, BatchNorm1d mlp_hidden, ReLU,
               Linear mlp_hidden mlp_hidden, BatchNorm1d mlp_hidden, ReLU,
               Linear mlp_hidden classes]\<rparr>"
    unfolding SlowFastDisruptionClassifier_init_def and_then_Inr_iff by auto
  have ish: "sf_input_shape slowfast = ishape"
    using sf unfolding SlowFastEncoder_init_def and_then_Inr_iff Let_def by auto
  have sdc: "sdc_slowfast self = slowfast" and cls: "sdc_classifier self =
            [Linear d mlp_hidden, BatchNorm1d mlp_hidden, ReLU,
             Linear mlp_hidden mlp_hidden, BatchNorm1d mlp_hidden, ReLU,
             Linear mlp_hidden classes]"
    unfolding self by simp_all
  have probe: "SlowFastEncoder_forward_shape fastnet slownet slowfast (8 # ishape) = Inr out"
    using probe0 ish by (auto simp: SlowFastEncoder_get_output_size_def and_then_Inr_iff)
  have all: "r \<noteq> [] \<and> hd r = N \<and> last r = d \<and>
             layer_forward training (Linear d mlp_hidden) r = Inr (butlast r @ [mlp_hidden]) \<and>
             (length r = 2 \<and> \<not> (training \<and> N = 1) \<longrightarrow>
                SlowFastDisruptionClassifier_forward fastnet slownet training self (N # ishape) =
                  Inr [N, classes])"
    if fwd: "SlowFastEncoder_forward_shape fastnet slownet slowfast (N # ishape) = Inr r" for N r
  proof -
    from SlowFastEncoder_forward_shape_per_item[OF assms(1,2) probe fwd]
    have "\<exists>u. u \<noteq> [] \<and> out = 8 # u \<and> r = N # u" by simp
    then
    obtain u where u: "u \<noteq> []" "out = 8 # u" "r = N # u" by blast
    with d have last: "last r = d" by (auto simp: size_last_def)
    have full: "SlowFastDisruptionClassifier_forward fastnet slownet training self (N # ishape) =
                  Inr [N, classes]" if "length r = 2" "\<not> (training \<and> N = 1)"
    proof -
      from that(1) u last have r: "r = [N, d]" by (cases u) auto
      have "SlowFastDisruptionClassifier_forward fastnet slownet training self (N # ishape) =
         Sequential_forward training
     [Linear d mlp_hidden, BatchNorm1d mlp_hidden, ReLU, Linear mlp_hidden mlp_hidden,
      BatchNorm1d mlp_hidden, ReLU, Linear mlp_hidden classes] [N, d]"
        using fwd unfolding r
        by (simp add: SlowFastDisruptionClassifier_forward_def sdc cls and_then_def)
      then show ?thesis
        using head_SlowFast[OF that(2), of d mlp_hidden classes] by simp
    qed
    have lin: "layer_forward training (Linear d mlp_hidden) r = Inr (butlast r @ [mlp_hidden])"
      using u last by simp
    show ?thesis using u last full lin by simp
  qed
  show ?thesis
    unfolding sdc using probe0 d cls all by blast
qed


text \<open>
  C4.  For layers and networks that treat the items of a batch alike.  When the
  constructor of \<^verbatim>\<open>R2Plus1DClassifier\<close> returns, the encoder has returned \<open>(1, d)\<close> on the
  probe of one clip and the first layer of the head is \<open>Linear d 128\<close>; and on every input
  \<open>(N, *input_size)\<close> on which the encoder returns, it returns \<open>(N, d)\<close>, the first layer of
  the head accepts it, and the whole forward pass returns \<open>(N, num_classes)\<close> (in training
  mode the batch normalisation of the head needs more than one clip).  Likewise when the
  constructor of \<^verbatim>\<open>SlowFastDisruptionClassifier\<close> returns: the first layer of the head is
  \<open>Linear d mlp_hidden\<close> for the last dimension \<open>d\<close> of the encoder's output on the probe of
  eight clips, and on every input \<open>(N, *input_shape)\<close> on which the encoder returns, the
  last dimension of its output is \<open>d\<close> and the first layer of the head accepts it.
\<close>

theorem head_input_dimension_inferred:
  assumes "\<forall>c. per_item (stc c)" and "\<forall>c. per_item (srl c)"
    and "fastnet_per_item fastnet" and "slownet_per_item slownet"
  shows "(\<forall>self. R2Plus1DClassifier_init new_stc new_srl stc srl input_size num_classes
              layer_sizes pretrained = Inr self \<longrightarrow>
       (\<exists>d. get_res2plus1d_output_size stc srl input_size (rc_res2plus1d self) = Inr [1, d] \<and>
          rc_linear self = [Linear d 128, BatchNorm1d 128, LeakyReLU, Linear 128 num_classes] \<and>
          (\<forall>N r. R2Plus1DNet_forward stc srl (rc_res2plus1d self) (N # input_size) = Inr r \<longrightarrow>
             r = [N, d] \<and> layer_forward training (Linear d 128) r = Inr [N, 128] \<and>
             (\<not> (training \<and> N = 1) \<longrightarrow>
                R2Plus1DClassifier_forward stc srl training self (N # input_size) =
                  Inr [N, num_classes])))) \<and>
     (\<forall>self. SlowFastDisruptionClassifier_init new_slownet new_fastnet fastnet slownet ishape
              layers alpha p mlp_hidden classes tau_fast base_bn_splits = Inr self \<longrightarrow>
       (\<exists>out d. SlowFastEncoder_get_output_size fastnet slownet (sdc_slowfast self) = Inr out \<and>
          size_last out = Inr d \<and>
          sdc_classifier self =
            [Linear d mlp_hidden, BatchNorm1d mlp_hidden, ReLU,
             Linear mlp_hidden mlp_hidden, BatchNorm1d mlp_hidden, ReLU,
             Linear mlp_hidden classes] \<and>
          (\<forall>N r. SlowFastEncoder_forward_shape fastnet slownet (sdc_slowfast self) (N # ishape) =
                   Inr r \<longrightarrow>
             r \<noteq> [] \<and> hd r = N \<and> last r = d \<and>
             layer_forward training (Linear d mlp_hidden) r = Inr (butlast r @ [mlp_hidden]) \<and>
             (length r = 2 \<and> \<not> (training \<and> N = 1) \<longrightarrow>
                SlowFastDisruptionClassifier_forward fastnet slownet training self (N # ishape) =
                  Inr [N, classes]))))"
proof (intro conjI allI impI)
  fix self
  assume "R2Plus1DClassifier_init new_stc new_srl stc srl input_size num_classes
              layer_sizes pretrained = Inr self"
  then show "\<exists>d. get_res2plus1d_output_size stc srl input_size (rc_res2plus1d self) = Inr [1, d] \<and>
          rc_linear self = [Linear d 128, BatchNorm1d 128, LeakyReLU, Linear 128 num_classes] \<and>
          (\<forall>N r. R2Plus1DNet_forward stc srl (rc_res2plus1d self) (N # input_size) = Inr r \<longrightarrow>
             r = [N, d] \<and> layer_forward training (Linear d 128) r = Inr [N, 128] \<and>
             (\<not> (training \<and> N = 1) \<longrightarrow>
                R2Plus1DClassifier_forward stc srl training self (N # input_size) =
                  Inr [N, num_classes]))"
    by (rule R2Plus1DClassifier_head_wired[OF assms(1,2)])
next
  fix self
  assume "SlowFastDisruptionClassifier_init new_slownet new_fastnet fastnet slownet ishape
              layers alpha p mlp_hidden classes tau_fast base_bn_splits = Inr self"
  then show "\<exists>out d. SlowFastEncoder_get_output_size fastnet slownet (sdc_slowfast self) = Inr out \<and>
          size_last out = Inr d \<and>
          sdc_classifier self =
            [Linear d mlp_hidden, BatchNorm1d mlp_hidden, ReLU,
             Linear mlp_hidden mlp_hidden, BatchNorm1d mlp_hidden, ReLU,
             Linear mlp_hidden classes] \<and>
          (\<forall>N r. SlowFastEncoder_forward_shape fastnet slownet (sdc_slowfast self) (N # ishape) =
                   Inr r \<longrightarrow>
             r \<noteq> [] \<and> hd r = N \<and> last r = d \<and>
             layer_forward training (Linear d mlp_hidden) r = Inr (butlast r @ [mlp_hidden]) \<and>
             (length r = 2 \<and> \<not> (training \<and> N = 1) \<longrightarrow>
                SlowFastDisruptionClassifier_forward fastnet slownet training self (N # ishape) =
                  Inr [N, classes]))"
    by (rule SlowFastDisruptionClassifier_head_wired[OF assms(3,4)])
qed


section \<open>The example networks\<close>

text \<open>What the forward passes and constructors return on the example inputs, and the two
  theorems above applied to them.\<close>

lemma example_R2Plus1DNet_forward:
  "R2Plus1DNet_forward example_stc example_srl
     \<lparr>conv1 = first_conv, conv2 = res_layer 64 64 4 None,
      conv3 = res_layer 64 128 4 (Some True), conv4 = res_layer 128 256 4 (Some True),
      conv5 = res_layer 256 512 4 (Some True)\<rparr> (N # default_input_shape) =
   (if 0 < N then Inr [N, 512] else Inl (Error Framework RuntimeError))"
  by (simp add: R2Plus1DNet_forward_def default_input_shape_def
      and_then_def size_at_def example_stc_def example_srl_def first_conv_def res_layer_def
      window_out_def view_infer_def numel_def Let_def)

lemma example_classifier_init:
  "\<exists>ms. R2Plus1DClassifier_init example_new_stc example_new_srl example_stc example_srl
        default_input_shape 2 [4, 4, 4, 4] False =
     Inr \<lparr>rc_input_size = default_input_shape,
          rc_res2plus1d = \<lparr>conv1 = first_conv, conv2 = res_layer 64 64 4 None,
      conv3 = res_layer 64 128 4 (Some True), conv4 = res_layer 128 256 4 (Some True),
      conv5 = res_layer 256 512 4 (Some True)\<rparr>,
          rc_linear = [Linear 512 128, BatchNorm1d 128, LeakyReLU, Linear 128 2],
          rc_modules = ms\<rparr>"
  by (simp add: R2Plus1DClassifier_init_def example_net_init example_probe and_then_def
        size_at_def load_pretrained_weights_def)

lemma example_SlowFastEncoder_forward_shape:
  "SlowFastEncoder_forward_shape example_fastnet_shape example_slownet_shape example_encoder
     (N # default_input_shape) = Inr [N, 2304]"
  by (simp add: SlowFastEncoder_forward_shape_eq split_slow_fast_shape_def slice_time_shape_def
      example_encoder_def default_input_shape_def and_then_def example_fastnet_shape_def
      example_slownet_shape_def cat_shape_def Dropout_forward_def Let_def
      slice_refused_def slice_len_def slice_len64_def slice_step_def wrap64_def div_trunc_def)

lemma example_SlowFastDisruptionClassifier_init:
  "SlowFastDisruptionClassifier_init example_new_net example_new_net example_fastnet_shape
      example_slownet_shape default_input_shape [3, 4, 6, 3] 4 (1 / 2) 128 2 1 None = Inr example_SlowFastDisruptionClassifier"
proof -
  have enc: "SlowFastEncoder_init example_new_net example_new_net default_input_shape
      [3, 4, 6, 3] 4 (1 / 2) 1 None = Inr example_encoder"
    by (simp add: SlowFastEncoder_init_def default_input_shape_def list_at_def and_then_def
        example_encoder_def example_new_net_def Dropout_init_def)
  have par: "first_parameter (sf_modules example_encoder) = Inr Default_init"
    by (simp add: first_parameter_def example_encoder_def)
  have ish: "sf_input_shape example_encoder = default_input_shape"
    by (simp add: example_encoder_def default_input_shape_def)
  have "SlowFastDisruptionClassifier_init example_new_net example_new_net example_fastnet_shape
      example_slownet_shape default_input_shape [3, 4, 6, 3] 4 (1 / 2) 128 2 1 None =
     Inr \<lparr>sdc_input_shape = default_input_shape, sdc_base_bn_splits = None,
          sdc_slowfast = example_encoder,
          sdc_classifier = [Linear 2304 128, BatchNorm1d 128, ReLU, Linear 128 128,
                            BatchNorm1d 128, ReLU, Linear 128 2]\<rparr>"
    by (simp add: SlowFastDisruptionClassifier_init_def enc and_then_def par
        SlowFastEncoder_get_output_size_def ish example_SlowFastEncoder_forward_shape
        size_last_def)
  then show ?thesis
    by (simp add: example_SlowFastDisruptionClassifier_def default_input_shape_def)
qed

lemma example_Unet:
  "Unet3DClassifier_forward example_unet example_resnet True
       [Linear 262144 128, BatchNorm1d 128, ReLU, Linear 128 2] [2, 3, 8, 112, 112] = Inr [2, 2]"
  by (simp add: Unet3DClassifier_forward_def example_unet_def example_resnet_def
      flatten_from_1_def and_then_def)


theorem head_input_dimension_inferred_witness:
  "(\<exists>self. R2Plus1DClassifier_init example_new_stc example_new_srl example_stc example_srl
        default_input_shape 2 [4, 4, 4, 4] False = Inr self \<and>
      get_res2plus1d_output_size example_stc example_srl default_input_shape
        (rc_res2plus1d self) = Inr [1, 512] \<and>
      rc_linear self = [Linear 512 128, BatchNorm1d 128, LeakyReLU, Linear 128 2] \<and>
      R2Plus1DNet_forward example_stc example_srl (rc_res2plus1d self) (5 # default_input_shape) =
        Inr [5, 512] \<and>
      R2Plus1DClassifier_forward example_stc example_srl True self (5 # default_input_shape) =
        Inr [5, 2]) \<and>
   SlowFastDisruptionClassifier_init example_new_net example_new_net example_fastnet_shape
      example_slownet_shape default_input_shape [3, 4, 6, 3] 4 (1 / 2) 128 2 1 None =
     Inr example_SlowFastDisruptionClassifier \<and>
   SlowFastEncoder_get_output_size example_fastnet_shape example_slownet_shape
      (sdc_slowfast example_SlowFastDisruptionClassifier) = Inr [8, 2304] \<and>
   sdc_classifier example_SlowFastDisruptionClassifier =
      [Linear 2304 128, BatchNorm1d 128, ReLU, Linear 128 128, BatchNorm1d 128, ReLU,
       Linear 128 2] \<and>
   SlowFastEncoder_forward_shape example_fastnet_shape example_slownet_shape
      (sdc_slowfast example_SlowFastDisruptionClassifier) (5 # default_input_shape) =
      Inr [5, 2304] \<and>
   SlowFastDisruptionClassifier_forward example_fastnet_shape example_slownet_shape True
      example_SlowFastDisruptionClassifier (5 # default_input_shape) = Inr [5, 2]"
proof -
  let ?net = "\<lparr>conv1 = first_conv, conv2 = res_layer 64 64 4 None,
      conv3 = res_layer 64 128 4 (Some True), conv4 = res_layer 128 256 4 (Some True),
      conv5 = res_layer 256 512 4 (Some True)\<rparr>"
  have h: "\<forall>c. per_item (example_stc c)" "\<forall>c. per_item (example_srl c)"
    "fastnet_per_item example_fastnet_shape" "slownet_per_item example_slownet_shape"
    by (simp_all add: per_item_example_stc per_item_example_srl fastnet_per_item_example
        slownet_per_item_example)
  note inst = head_input_dimension_inferred[OF h, where new_stc = example_new_stc
      and new_srl = example_new_srl and input_size = default_input_shape and num_classes = 2
      and layer_sizes = "[4, 4, 4, 4]" and pretrained = False and training = True
      and ishape = default_input_shape and layers = "[3, 4, 6, 3]" and alpha = 4
      and mlp_hidden = 128 and classes = 2 and tau_fast = 1 and base_bn_splits = None]
  obtain self where init: "R2Plus1DClassifier_init example_new_stc example_new_srl example_stc
        example_srl default_input_shape 2 [4, 4, 4, 4] False = Inr self"
    and net: "rc_res2plus1d self = ?net"
    using example_classifier_init by force
  have fwd: "R2Plus1DNet_forward example_stc example_srl (rc_res2plus1d self)
      (5 # default_input_shape) = Inr [5, 512]"
    unfolding net by (simp add: example_R2Plus1DNet_forward)
  from inst init obtain d where
    probe: "get_res2plus1d_output_size example_stc example_srl default_input_shape
        (rc_res2plus1d self) = Inr [1, d]"
    and lin: "rc_linear self = [Linear d 128, BatchNorm1d 128, LeakyReLU, Linear 128 2]"
    and all: "\<forall>N r. R2Plus1DNet_forward example_stc example_srl (rc_res2plus1d self)
           (N # default_input_shape) = Inr r \<longrightarrow>
        r = [N, d] \<and> layer_forward True (Linear d 128) r = Inr [N, 128] \<and>
        (\<not> (True \<and> N = 1) \<longrightarrow>
           R2Plus1DClassifier_forward example_stc example_srl True self
             (N # default_input_shape) = Inr [N, 2])"
    by blast
  from all[rule_format, OF fwd] have d: "d = 512"
    and cls: "R2Plus1DClassifier_forward example_stc example_srl True self
             (5 # default_input_shape) = Inr [5, 2]"
    by auto
  have sf: "sdc_slowfast example_SlowFastDisruptionClassifier = example_encoder"
    by (simp add: example_SlowFastDisruptionClassifier_def)
  have sfwd: "SlowFastEncoder_forward_shape example_fastnet_shape example_slownet_shape
      (sdc_slowfast example_SlowFastDisruptionClassifier) (5 # default_input_shape) =
      Inr [5, 2304]"
    unfolding sf by (rule example_SlowFastEncoder_forward_shape)
  from inst example_SlowFastDisruptionClassifier_init obtain out e where
    sprobe: "SlowFastEncoder_get_output_size example_fastnet_shape example_slownet_shape
      (sdc_slowfast example_SlowFastDisruptionClassifier) = Inr out"
    and e: "size_last out = Inr e"
    and scls: "sdc_classifier example_SlowFastDisruptionClassifier =
      [Linear e 128, BatchNorm1d 128, ReLU, Linear 128 128, BatchNorm1d 128, ReLU, Linear 128 2]"
    and sall: "\<forall>N r. SlowFastEncoder_forward_shape example_fastnet_shape example_slownet_shape
          (sdc_slowfast example_SlowFastDisruptionClassifier) (N # default_input_shape) = Inr r \<longrightarrow>
        r \<noteq> [] \<and> hd r = N \<and> last r = e \<and>
        layer_forward True (Linear e 128) r = Inr (butlast r @ [128]) \<and>
        (length r = 2 \<and> \<not> (True \<and> N = 1) \<longrightarrow>
           SlowFastDisruptionClassifier_forward example_fastnet_shape example_slownet_shape True
             example_SlowFastDisruptionClassifier (N # default_input_shape) = Inr [N, 2])"
    by blast
  from sall[rule_format, OF sfwd] have e': "e = 2304"
    and sfull: "SlowFastDisruptionClassifier_forward example_fastnet_shape example_slownet_shape
        True example_SlowFastDisruptionClassifier (5 # default_input_shape) = Inr [5, 2]"
    by auto
  have ish: "sf_input_shape example_encoder = default_input_shape"
    by (simp add: example_encoder_def default_input_shape_def)
  have par: "first_parameter (sf_modules example_encoder) = Inr Default_init"
    by (simp add: first_parameter_def example_encoder_def)
  have out: "out = [8, 2304]"
    using sprobe unfolding sf
    by (simp add: SlowFastEncoder_get_output_size_def ish example_SlowFastEncoder_forward_shape
        par and_then_def)
  show ?thesis
    using init probe lin fwd cls example_SlowFastDisruptionClassifier_init sprobe scls sfwd sfull
    unfolding d e' out by blast
qed


lemma example_encoder_forward:
  "VideoSpatioEncoder_forward conv_block_shape
       (sb_spatio_encoder example_SBERTDisruptionClassifier) (2 # default_input_shape) =
     Inr [2, 8, 2304]"
  using VideoSpatioEncoder_forward_default[OF acts_as_conv_conv_block_shape, of 2]
  by (simp add: example_SBERTDisruptionClassifier_def)

lemma example_SBERT_forward:
  "SBERTDisruptionClassifier_forward conv_block_shape example_sbert example_classifier
       example_SBERTDisruptionClassifier (2 # default_input_shape) = Inr [2, 2]"
  by (simp add: SBERTDisruptionClassifier_forward_def example_encoder_forward and_then_def
      size_at_def Let_def example_sbert_def doy_ramp_def example_classifier_def)

lemma example_SlowFastDisruptionClassifier_forward:
  "SlowFastDisruptionClassifier_forward example_fastnet_shape example_slownet_shape True
      example_SlowFastDisruptionClassifier (2 # default_input_shape) = Inr [2, 2]"
proof -
  have "sdc_slowfast example_SlowFastDisruptionClassifier = example_encoder"
    by (simp add: example_SlowFastDisruptionClassifier_def)
  then show ?thesis
    by (simp add: SlowFastDisruptionClassifier_forward_def example_SlowFastEncoder_forward_shape
        and_then_def example_SlowFastDisruptionClassifier_def)
qed

lemma example_ResNet50_forward:
  "ResNet50_forward example_layer (2 # default_input_shape) = Inr [2, 256, 8, 112, 112]"
  by (simp add: ResNet50_forward_def example_layer_def default_input_shape_def and_then_def)

lemma example_SITS_forward:
  "SITSBertSpatialEncoder_forward example_layer \<lparr>sits_input_shape = default_input_shape, sits_seq_len = 8\<rparr>
     (2 # default_input_shape) = Inr [2, 8, 3211264]"
  by (simp add: SITSBertSpatialEncoder_forward_def example_ResNet50_forward and_then_def
      size_at_def view_infer_def numel_def)

lemma example_VideoSpatialEncoder_forward:
  "VideoSpatialEncoder_forward example_resnet3d \<lparr>vs_input_shape = default_input_shape, vs_seq_len = 8\<rparr>
     (2 # default_input_shape) = Inr [2, 8, 256]"
  by (simp add: VideoSpatialEncoder_forward_def example_resnet3d_def default_input_shape_def
      and_then_def Dropout_forward_def size_at_def view_infer_def numel_def)

lemma example_MNIST_Net_forward:
  "MNIST_Net_forward Inr True example_MNIST_Net [2, 1, 28, 28] = Inr [2, 10]"
  by (simp add: MNIST_Net_forward_def example_MNIST_Net_def and_then_def size_at_def
      window_out_def pool_out_def view_infer_def numel_def log_softmax_dim1_def)

theorem forward_keeps_batch_dimension_witness:
  "(\<exists>net ms. R2Plus1DNet_init example_new_stc example_new_srl [4, 4, 4, 4] = Inr (net, ms) \<and>
      R2Plus1DNet_forward example_stc example_srl net (2 # default_input_shape) = Inr [2, 512]) \<and>
   (\<exists>self. R2Plus1DClassifier_init example_new_stc example_new_srl example_stc example_srl
        default_input_shape 2 [4, 4, 4, 4] False = Inr self \<and>
      R2Plus1DClassifier_forward example_stc example_srl True self (2 # default_input_shape) =
        Inr [2, 2]) \<and>
   VideoSpatioEncoder_forward conv_block_shape
       (sb_spatio_encoder example_SBERTDisruptionClassifier) (2 # default_input_shape) =
     Inr [2, 8, 2304] \<and>
   SlowFastEncoder_forward_shape example_fastnet_shape example_slownet_shape example_encoder
       (2 # default_input_shape) = Inr [2, 2304] \<and>
   SlowFastDisruptionClassifier_forward example_fastnet_shape example_slownet_shape True
       example_SlowFastDisruptionClassifier (2 # default_input_shape) = Inr [2, 2] \<and>
   SBERTDisruptionClassifier_forward conv_block_shape example_sbert example_classifier
       example_SBERTDisruptionClassifier (2 # default_input_shape) = Inr [2, 2] \<and>
   Unet3DClassifier_forward example_unet example_resnet True
       [Linear 262144 128, BatchNorm1d 128, ReLU, Linear 128 2] (2 # default_input_shape) =
     Inr [2, 2] \<and>
   ResNet50_forward example_layer (2 # default_input_shape) = Inr [2, 256, 8, 112, 112] \<and>
   SITSBertSpatialEncoder_forward example_layer
       \<lparr>sits_input_shape = default_input_shape, sits_seq_len = 8\<rparr> (2 # default_input_shape) =
     Inr [2, 8, 3211264] \<and>
   VideoSpatialEncoder_forward example_resnet3d
       \<lparr>vs_input_shape = default_input_shape, vs_seq_len = 8\<rparr> (2 # default_input_shape) =
     Inr [2, 8, 256] \<and>
   MNIST_Net_forward Inr True example_MNIST_Net [2, 1, 28, 28] = Inr [2, 10]"
proof -
  let ?net = "\<lparr>conv1 = first_conv, conv2 = res_layer 64 64 4 None,
      conv3 = res_layer 64 128 4 (Some True), conv4 = res_layer 128 256 4 (Some True),
      conv5 = res_layer 256 512 4 (Some True)\<rparr>"
  obtain ms where net: "R2Plus1DNet_init example_new_stc example_new_srl [4, 4, 4, 4] =
      Inr (?net, ms)"
    using example_net_init by blast
  obtain self where init: "R2Plus1DClassifier_init example_new_stc example_new_srl example_stc
        example_srl default_input_shape 2 [4, 4, 4, 4] False = Inr self"
    and self: "rc_res2plus1d self = ?net"
      "rc_linear self = [Linear 512 128, BatchNorm1d 128, LeakyReLU, Linear 128 2]"
    using example_classifier_init by force
  have h: "\<forall>c. keeps_batch (example_stc c)" "res_layer_shape example_srl"
    "\<forall>b. keeps_batch (conv_block_shape b)"
    "fastnet_keeps_batch example_fastnet_shape" "slownet_keeps_batch example_slownet_shape"
    "sbert_keeps_batch example_sbert" "keeps_batch example_classifier"
    "keeps_batch example_unet" "keeps_batch example_resnet"
    by (simp_all add: per_item_keeps_batch per_item_example_stc res_layer_shape_example_srl
        keeps_batch_conv_block_shape fastnet_keeps_batch_example slownet_keeps_batch_example
        sbert_keeps_batch_example keeps_batch_example_classifier keeps_batch_example_unet
        keeps_batch_example_resnet)
  have h': "\<forall>i. keeps_batch (example_layer i)" "\<forall>p. keeps_batch (example_resnet3d p)"
    "at_least_4d (example_resnet3d Layer4)"
    by (auto simp: keeps_batch_example_layer keeps_batch_example_resnet3d at_least_4d_def
        example_resnet3d_def split: list.splits)
  note inst = forward_keeps_batch_dimension[OF h net h', where N = 2 and s = default_input_shape
      and training = True and ?r2.0 = self]
  obtain r where r: "R2Plus1DNet_forward example_stc example_srl ?net (2 # default_input_shape) =
      Inr r"
    by (simp add: example_R2Plus1DNet_forward)
  with inst have r512: "r = [2, 512]"
    by blast
  have cls: "R2Plus1DClassifier_forward example_stc example_srl True self
      (2 # default_input_shape) = Inr [2, 2]"
    using r unfolding r512
    by (simp add: R2Plus1DClassifier_forward_def self and_then_def)
  have unet: "Unet3DClassifier_forward example_unet example_resnet True
       [Linear 262144 128, BatchNorm1d 128, ReLU, Linear 128 2] (2 # default_input_shape) =
     Inr [2, 2]"
    by (simp add: Unet3DClassifier_forward_def example_unet_def example_resnet_def
        flatten_from_1_def and_then_def default_input_shape_def)
  show ?thesis
    using net r[unfolded r512] init cls example_encoder_forward
      example_SlowFastEncoder_forward_shape[of 2] example_SlowFastDisruptionClassifier_forward
      example_SBERT_forward unet example_ResNet50_forward example_SITS_forward
      example_VideoSpatialEncoder_forward example_MNIST_Net_forward
    by blast
qed


section \<open>Where failures come from\<close>




















































end
